theory Spec2Isabelle
  imports Main "HOL-Library.Word"
begin

section \<open>Data model\<close>

text \<open>
  The objects of the HelmRepository reconciler, as the Go code has them. Structs are
  records, a pointer that may be nil is an \<open>option\<close>, a slice that may be nil is a list
  \<open>option\<close> (\<open>None\<close> is the nil slice, \<open>Some []\<close> an allocated empty one), int64 counters
  are 64-bit words. Field names are the Go field names; where two structs share a field
  name the record field carries a short prefix (\<open>CondType\<close>, \<open>SpecType\<close>, \<open>SpecURL\<close>,
  \<open>StatusURL\<close>, \<open>StatusArtifact\<close>, \<open>RepoURL\<close>, \<open>RepoPath\<close>).
\<close>

record Artifact =
  Path :: string
  URL :: string
  Revision :: string
  Checksum :: string
  Digest :: string
  LastUpdateTime :: nat
  Size :: "64 word option"

record Condition =
  CondType :: string
  CondStatus :: string
  CondReason :: string
  CondMessage :: string

record ObjectMeta =
  Name :: string
  Namespace :: string
  Generation :: "64 word"
  DeletionTimestamp :: "nat option"
  Finalizers :: "string list"
  Annotations :: "(string \<times> string) list"

record HelmRepositorySpec =
  SpecURL :: string
  SecretRef :: "string option"
  PassCredentials :: bool
  Timeout :: nat
  Suspend :: bool
  SpecType :: string

record HelmRepositoryStatus =
  ObservedGeneration :: "64 word"
  Conditions :: "Condition list option"
  StatusURL :: string
  StatusArtifact :: "Artifact option"
  LastHandledReconcileAt :: string

record HelmRepository =
  Kind :: string
  ObjectMeta :: ObjectMeta
  Spec :: HelmRepositorySpec
  Status :: HelmRepositoryStatus

text \<open>
  A \<open>client.Object\<close> is an interface value: nil, a \<open>*HelmRepository\<close>, or an object of
  another type (the tests use \<open>unstructured.Unstructured\<close>).
\<close>

datatype client_Object = HelmRepositoryObject HelmRepository | Unstructured

record CreateEvent =
  Create_Object :: "client_Object option"

record UpdateEvent =
  Update_ObjectOld :: "client_Object option"
  Update_ObjectNew :: "client_Object option"

record DeleteEvent =
  Delete_Object :: "client_Object option"

record GenericEvent =
  Generic_Object :: "client_Object option"

subsection \<open>Constants of the API package\<close>

definition HelmRepositoryTypeDefault :: string where
  "HelmRepositoryTypeDefault = ''default''"

definition HelmRepositoryTypeOCI :: string where
  "HelmRepositoryTypeOCI = ''oci''"

definition SourceFinalizer :: string where
  "SourceFinalizer = ''finalizers.fluxcd.io''"

definition StorageOperationFailedCondition :: string where
  "StorageOperationFailedCondition = ''StorageOperationFailed''"

definition FetchFailedCondition :: string where
  "FetchFailedCondition = ''FetchFailed''"

definition ArtifactOutdatedCondition :: string where
  "ArtifactOutdatedCondition = ''ArtifactOutdated''"

definition ArtifactInStorageCondition :: string where
  "ArtifactInStorageCondition = ''ArtifactInStorage''"

definition helmRepositoryFailConditions :: "string list" where
  "helmRepositoryFailConditions = [FetchFailedCondition, StorageOperationFailedCondition]"

subsection \<open>Finalizers and the zero time\<close>

text \<open>
  \<open>controllerutil.ContainsFinalizer\<close>, \<open>AddFinalizer\<close> and \<open>RemoveFinalizer\<close> work on the
  finalizer list of the object's metadata. \<open>IsZero\<close> of a \<open>*metav1.Time\<close> holds for the
  nil pointer and for the zero time, which is time \<open>0\<close> here.
\<close>

definition ContainsFinalizer :: "HelmRepository \<Rightarrow> string \<Rightarrow> bool" where
  "ContainsFinalizer obj f = (f \<in> set (Finalizers (ObjectMeta obj)))"

definition AddFinalizer :: "HelmRepository \<Rightarrow> string \<Rightarrow> HelmRepository" where
  "AddFinalizer obj f =
     (if f \<in> set (Finalizers (ObjectMeta obj)) then obj
      else obj\<lparr>ObjectMeta := (ObjectMeta obj)\<lparr>Finalizers := Finalizers (ObjectMeta obj) @ [f]\<rparr>\<rparr>)"

definition RemoveFinalizer :: "HelmRepository \<Rightarrow> string \<Rightarrow> HelmRepository" where
  "RemoveFinalizer obj f =
     obj\<lparr>ObjectMeta := (ObjectMeta obj)\<lparr>Finalizers := filter (\<lambda>g. g \<noteq> f) (Finalizers (ObjectMeta obj))\<rparr>\<rparr>"

definition IsZero :: "nat option \<Rightarrow> bool" where
  "IsZero t = (case t of None \<Rightarrow> True | Some x \<Rightarrow> x = 0)"

section \<open>Event predicates (internal/predicates)\<close>

text \<open>
  Modelled from the spec: \<open>predicate.Funcs\<close> of controller-runtime, which both
  predicate structs embed, is not among the sources. The design notes have a predicate
  default the event kinds it does not handle "to a fixed pass-through value equal to the
  framework's baseline behavior". The struct holds one optional handler for each event
  kind; a method calls its handler when one is set and passes the event (\<open>True\<close>) when
  none is.
\<close>

record Funcs =
  CreateFunc :: "(CreateEvent \<Rightarrow> bool) option"
  DeleteFunc :: "(DeleteEvent \<Rightarrow> bool) option"
  UpdateFunc :: "(UpdateEvent \<Rightarrow> bool) option"
  GenericFunc :: "(GenericEvent \<Rightarrow> bool) option"

definition Funcs_zero :: Funcs where
  "Funcs_zero = \<lparr>CreateFunc = None, DeleteFunc = None, UpdateFunc = None, GenericFunc = None\<rparr>"

definition Funcs_Create :: "Funcs \<Rightarrow> CreateEvent \<Rightarrow> bool" where
  "Funcs_Create p e = (case CreateFunc p of Some f \<Rightarrow> f e | None \<Rightarrow> True)"

definition Funcs_Delete :: "Funcs \<Rightarrow> DeleteEvent \<Rightarrow> bool" where
  "Funcs_Delete p e = (case DeleteFunc p of Some f \<Rightarrow> f e | None \<Rightarrow> True)"

definition Funcs_Update :: "Funcs \<Rightarrow> UpdateEvent \<Rightarrow> bool" where
  "Funcs_Update p e = (case UpdateFunc p of Some f \<Rightarrow> f e | None \<Rightarrow> True)"

definition Funcs_Generic :: "Funcs \<Rightarrow> GenericEvent \<Rightarrow> bool" where
  "Funcs_Generic p e = (case GenericFunc p of Some f \<Rightarrow> f e | None \<Rightarrow> True)"

subsection \<open>HelmRepositoryTypePredicate\<close>

definition helmRepositoryTypeFilter :: "string \<Rightarrow> client_Object option \<Rightarrow> bool" where
  "helmRepositoryTypeFilter repositoryType ob =
     (case ob of
        None \<Rightarrow> False
      | Some Unstructured \<Rightarrow> False
      | Some (HelmRepositoryObject hr) \<Rightarrow> SpecType (Spec hr) = repositoryType)"

record HelmRepositoryTypePredicate =
  RepositoryType :: string
  TypePredicate_Funcs :: Funcs

definition HelmRepositoryTypePredicate_Create :: "HelmRepositoryTypePredicate \<Rightarrow> CreateEvent \<Rightarrow> bool" where
  "HelmRepositoryTypePredicate_Create h e = helmRepositoryTypeFilter (RepositoryType h) (Create_Object e)"

definition HelmRepositoryTypePredicate_Update :: "HelmRepositoryTypePredicate \<Rightarrow> UpdateEvent \<Rightarrow> bool" where
  "HelmRepositoryTypePredicate_Update h e =
     (case Update_ObjectNew e of
        None \<Rightarrow> False
      | Some Unstructured \<Rightarrow> False
      | Some (HelmRepositoryObject newObj) \<Rightarrow> SpecType (Spec newObj) = RepositoryType h)"

definition HelmRepositoryTypePredicate_Delete :: "HelmRepositoryTypePredicate \<Rightarrow> DeleteEvent \<Rightarrow> bool" where
  "HelmRepositoryTypePredicate_Delete h e = helmRepositoryTypeFilter (RepositoryType h) (Delete_Object e)"

definition HelmRepositoryTypePredicate_Generic :: "HelmRepositoryTypePredicate \<Rightarrow> GenericEvent \<Rightarrow> bool" where
  "HelmRepositoryTypePredicate_Generic h e = helmRepositoryTypeFilter (RepositoryType h) (Generic_Object e)"

subsection \<open>HelmRepositoryOCIMigrationPredicate\<close>

definition hasEmptyHelmRepositoryStatus :: "HelmRepository \<Rightarrow> bool" where
  "hasEmptyHelmRepositoryStatus obj =
     (if ObservedGeneration (Status obj) = 0 \<and>
         Conditions (Status obj) = None \<and>
         StatusURL (Status obj) = '''' \<and>
         StatusArtifact (Status obj) = None \<and>
         LastHandledReconcileAt (Status obj) = ''''
      then True else False)"

definition HelmRepositoryOCIRequireMigration :: "client_Object option \<Rightarrow> bool" where
  "HelmRepositoryOCIRequireMigration ob =
     (case ob of
        None \<Rightarrow> False
      | Some Unstructured \<Rightarrow> False
      | Some (HelmRepositoryObject hr) \<Rightarrow>
          if SpecType (Spec hr) \<noteq> HelmRepositoryTypeOCI then False
          else if ContainsFinalizer hr SourceFinalizer \<or> \<not> hasEmptyHelmRepositoryStatus hr then True
          else False)"

record HelmRepositoryOCIMigrationPredicate =
  MigrationPredicate_Funcs :: Funcs

definition HelmRepositoryOCIMigrationPredicate_Create ::
    "HelmRepositoryOCIMigrationPredicate \<Rightarrow> CreateEvent \<Rightarrow> bool" where
  "HelmRepositoryOCIMigrationPredicate_Create h e = HelmRepositoryOCIRequireMigration (Create_Object e)"

definition HelmRepositoryOCIMigrationPredicate_Update ::
    "HelmRepositoryOCIMigrationPredicate \<Rightarrow> UpdateEvent \<Rightarrow> bool" where
  "HelmRepositoryOCIMigrationPredicate_Update h e = HelmRepositoryOCIRequireMigration (Update_ObjectNew e)"

definition HelmRepositoryOCIMigrationPredicate_Delete ::
    "HelmRepositoryOCIMigrationPredicate \<Rightarrow> DeleteEvent \<Rightarrow> bool" where
  "HelmRepositoryOCIMigrationPredicate_Delete h e = HelmRepositoryOCIRequireMigration (Delete_Object e)"

text \<open>
  The struct declares no \<open>Generic\<close> method: Go promotes the method of the embedded
  \<open>predicate.Funcs\<close>.
\<close>

definition HelmRepositoryOCIMigrationPredicate_Generic ::
    "HelmRepositoryOCIMigrationPredicate \<Rightarrow> GenericEvent \<Rightarrow> bool" where
  "HelmRepositoryOCIMigrationPredicate_Generic h e = Funcs_Generic (MigrationPredicate_Funcs h) e"

subsection \<open>The event filter of the controller\<close>

text \<open>
  \<open>predicate.And\<close> and \<open>predicate.Or\<close> of controller-runtime combine predicates event
  kind by event kind. A predicate value is the record of its four methods.
  \<open>GenerationChangedPredicate\<close> and \<open>ReconcileRequestedPredicate\<close> come from libraries
  and are parameters of the filter.
\<close>

record Predicate =
  Create :: "CreateEvent \<Rightarrow> bool"
  Delete :: "DeleteEvent \<Rightarrow> bool"
  Update :: "UpdateEvent \<Rightarrow> bool"
  Generic :: "GenericEvent \<Rightarrow> bool"

definition predicate_And :: "Predicate list \<Rightarrow> Predicate" where
  "predicate_And ps =
     \<lparr>Create = (\<lambda>e. list_all (\<lambda>p. Create p e) ps),
      Delete = (\<lambda>e. list_all (\<lambda>p. Delete p e) ps),
      Update = (\<lambda>e. list_all (\<lambda>p. Update p e) ps),
      Generic = (\<lambda>e. list_all (\<lambda>p. Generic p e) ps)\<rparr>"

definition predicate_Or :: "Predicate list \<Rightarrow> Predicate" where
  "predicate_Or ps =
     \<lparr>Create = (\<lambda>e. list_ex (\<lambda>p. Create p e) ps),
      Delete = (\<lambda>e. list_ex (\<lambda>p. Delete p e) ps),
      Update = (\<lambda>e. list_ex (\<lambda>p. Update p e) ps),
      Generic = (\<lambda>e. list_ex (\<lambda>p. Generic p e) ps)\<rparr>"

definition TypePredicate :: "HelmRepositoryTypePredicate \<Rightarrow> Predicate" where
  "TypePredicate h =
     \<lparr>Create = HelmRepositoryTypePredicate_Create h,
      Delete = HelmRepositoryTypePredicate_Delete h,
      Update = HelmRepositoryTypePredicate_Update h,
      Generic = HelmRepositoryTypePredicate_Generic h\<rparr>"

definition SetupWithManagerAndOptions_EventFilter :: "Predicate \<Rightarrow> Predicate \<Rightarrow> Predicate" where
  "SetupWithManagerAndOptions_EventFilter GenerationChangedPredicate ReconcileRequestedPredicate =
     predicate_And
       [predicate_Or
          [TypePredicate \<lparr>RepositoryType = HelmRepositoryTypeDefault, TypePredicate_Funcs = Funcs_zero\<rparr>,
           TypePredicate \<lparr>RepositoryType = '''', TypePredicate_Funcs = Funcs_zero\<rparr>],
        predicate_Or [GenerationChangedPredicate, ReconcileRequestedPredicate]]"

section \<open>The reconciler (controllers/helmrepository_controller.go)\<close>

subsection \<open>Results, errors and recorded calls\<close>

text \<open>
  \<open>sreconcile.Result\<close> is declared in internal/reconcile; the controller uses its three
  constants, and \<open>ResultEmpty\<close> is the value of an uninitialised \<open>Result\<close> variable.
  A Go \<open>error\<close> is \<open>go_error option\<close>, \<open>None\<close> being nil: an error of a collaborator
  (\<open>Plain\<close>), or one of the two wrappers of internal/error the controller builds, each
  with the message of the wrapped error and a reason.
\<close>

datatype Result = ResultEmpty | ResultRequeue | ResultSuccess

datatype go_error = Plain string | Event string string | Stalling string string

fun Error :: "go_error \<Rightarrow> string" where
  "Error (Plain m) = m"
| "Error (Event m reason) = m"
| "Error (Stalling m reason) = m"

fun Reason :: "go_error \<Rightarrow> string" where
  "Reason (Plain m) = []"
| "Reason (Event m reason) = reason"
| "Reason (Stalling m reason) = reason"

datatype repo_error = url_Error string | other_Error string

type_synonym IndexFile = string

type_synonym Secret = "(string \<times> string) list"

type_synonym tls_Config = string

datatype getter_Option =
    WithTimeout nat
  | WithURL string
  | WithPassCredentialsAll bool
  | WithSecretOption string

record ChartRepository =
  RepoURL :: string
  RepoPath :: string
  Index :: "IndexFile option"

record ctrl_Result =
  Requeue :: bool
  RequeueAfter :: nat

text \<open>
  Every call that reaches a collaborator with an effect outside the object (the API
  server, the artifact store, the index cache, the event recorder, the temporary index
  file) is recorded, in order, with its arguments. Log lines are not recorded.
\<close>

datatype Effect =
    Call_Patch HelmRepository
  | Call_Get_Secret string string
  | Call_CacheIndex
  | Call_LoadFromPath
  | Call_Clear
  | Call_RemoveAll Artifact
  | Call_GarbageCollect Artifact
  | Call_MkdirAll Artifact
  | Call_Lock Artifact
  | Call_Unlock Artifact
  | Call_CopyFromPath Artifact string
  | Call_Symlink Artifact string
  | Call_Cache_Set string IndexFile
  | Call_Cache_SetExpiration string
  | Call_Eventf string string string
  | Call_AnnotatedEventf "(string \<times> string) list" string string string

text \<open>
  The collaborators of the reconciler. None of them is defined in the controller or in
  the predicates: each is a parameter, and every theorem holds for whatever they answer. A Go function
  that returns a value and an error is a pair or a sum; one that updates its pointer
  argument returns the updated value.
\<close>

record Env =
  Get :: "string \<times> string \<Rightarrow> go_error + HelmRepository"
  IgnoreNotFound :: "go_error \<Rightarrow> go_error option"
  SummarizeAndPatch ::
    "HelmRepository \<Rightarrow> Result \<Rightarrow> go_error option \<Rightarrow> HelmRepository \<times> ctrl_Result \<times> go_error option"
  Patch :: "HelmRepository \<Rightarrow> HelmRepository \<times> go_error option"
  ProgressiveStatus :: "bool \<Rightarrow> Condition list option \<Rightarrow> string \<Rightarrow> string \<Rightarrow> Condition list option"
  ReconcileAnnotationValue :: "(string \<times> string) list \<Rightarrow> string option"
  LowestRequeuingResult :: "Result \<Rightarrow> Result \<Rightarrow> Result"
  FailureRecovery :: "HelmRepository \<Rightarrow> HelmRepository \<Rightarrow> string list \<Rightarrow> bool"
  HumanSize :: "64 word \<Rightarrow> string"
  Client_Get_Secret :: "string \<Rightarrow> string \<Rightarrow> go_error + Secret"
  ClientOptionsFromSecret :: "Secret \<Rightarrow> go_error + getter_Option list"
  TLSClientConfigFromSecret :: "Secret \<Rightarrow> string \<Rightarrow> go_error + tls_Config option"
  NewChartRepository ::
    "string \<Rightarrow> tls_Config option \<Rightarrow> getter_Option list \<Rightarrow> repo_error + ChartRepository"
  CacheIndex :: "ChartRepository \<Rightarrow> ChartRepository \<times> go_error option"
  LoadFromPath :: "ChartRepository \<Rightarrow> ChartRepository \<times> go_error option"
  ChartRepository_Digest :: "ChartRepository \<Rightarrow> string \<Rightarrow> string"
  Clear :: "ChartRepository \<Rightarrow> ChartRepository \<times> go_error option"
  Validate :: "string \<Rightarrow> go_error option"
  Algorithm :: "string \<Rightarrow> string"
  Hex :: "string \<Rightarrow> string"
  Canonical :: string
  TransformLegacyRevision :: "string \<Rightarrow> string"
  Storage_NewArtifactFor :: "string \<Rightarrow> ObjectMeta \<Rightarrow> string \<Rightarrow> string \<Rightarrow> Artifact"
  Storage_ArtifactExist :: "Artifact \<Rightarrow> bool"
  Storage_SetArtifactURL :: "Artifact \<Rightarrow> Artifact"
  Storage_SetHostname :: "string \<Rightarrow> string"
  Storage_MkdirAll :: "Artifact \<Rightarrow> go_error option"
  Storage_Lock :: "Artifact \<Rightarrow> go_error option"
  Storage_CopyFromPath :: "Artifact \<Rightarrow> string \<Rightarrow> Artifact \<times> go_error option"
  Storage_Symlink :: "Artifact \<Rightarrow> string \<Rightarrow> string \<times> go_error option"
  Storage_RemoveAll :: "Artifact \<Rightarrow> string \<times> go_error option"
  Storage_GarbageCollect :: "Artifact \<Rightarrow> string list \<times> go_error option"
  Cache_configured :: bool
  Cache_Set :: "string \<Rightarrow> IndexFile \<Rightarrow> go_error option"

text \<open>
  What the sub-reconcilers share during one pass: the object, the candidate artifact
  and the chart repository (the two slots \<open>reconcile\<close> declares and hands to each
  sub-reconciler by pointer), and the calls recorded so far.
\<close>

record pass =
  obj :: HelmRepository
  artifact :: Artifact
  chartRepo :: ChartRepository
  effects :: "Effect list"

type_synonym helmRepositoryReconcileFunc = "pass \<Rightarrow> pass \<times> Result \<times> go_error option"

definition Artifact_zero :: Artifact where
  "Artifact_zero =
     \<lparr>Path = [], URL = [], Revision = [], Checksum = [], Digest = [], LastUpdateTime = 0, Size = None\<rparr>"

definition ChartRepository_zero :: ChartRepository where
  "ChartRepository_zero = \<lparr>RepoURL = [], RepoPath = [], Index = None\<rparr>"

subsection \<open>Conditions, artifact comparison, formatting\<close>

text \<open>
  \<open>conditions.Delete\<close> and \<open>conditions.MarkTrue\<close> of the runtime library, on the
  condition list of the status: a list holds at most one condition of a type, deleting
  removes it, marking replaces it. Both leave an allocated list behind. The order of the
  list is not modelled (the library keeps it sorted), and no theorem reads it.
\<close>

definition GetConditions :: "HelmRepository \<Rightarrow> Condition list" where
  "GetConditions ob = (case Conditions (Status ob) of None \<Rightarrow> [] | Some cs \<Rightarrow> cs)"

definition SetConditions :: "HelmRepository \<Rightarrow> Condition list option \<Rightarrow> HelmRepository" where
  "SetConditions ob cs = ob\<lparr>Status := (Status ob)\<lparr>Conditions := cs\<rparr>\<rparr>"

definition conditions_Get :: "HelmRepository \<Rightarrow> string \<Rightarrow> Condition option" where
  "conditions_Get ob t = find (\<lambda>c. CondType c = t) (GetConditions ob)"

definition conditions_Delete :: "HelmRepository \<Rightarrow> string \<Rightarrow> HelmRepository" where
  "conditions_Delete ob t =
     SetConditions ob (Some (filter (\<lambda>c. CondType c \<noteq> t) (GetConditions ob)))"

definition conditions_MarkTrue :: "HelmRepository \<Rightarrow> string \<Rightarrow> string \<Rightarrow> string \<Rightarrow> HelmRepository" where
  "conditions_MarkTrue ob t reason message =
     SetConditions ob
       (Some (filter (\<lambda>c. CondType c \<noteq> t) (GetConditions ob) @
              [\<lparr>CondType = t, CondStatus = ''True'', CondReason = reason, CondMessage = message\<rparr>]))"

definition ProgressiveStatus_on :: "Env \<Rightarrow> bool \<Rightarrow> HelmRepository \<Rightarrow> string \<Rightarrow> string \<Rightarrow> HelmRepository" where
  "ProgressiveStatus_on r drift ob reason message =
     SetConditions ob (ProgressiveStatus r drift (Conditions (Status ob)) reason message)"

text \<open>
  Modelled from the spec: \<open>Artifact.HasRevision\<close> and \<open>Artifact.HasChecksum\<close> are
  methods of the API package, which is not among the files. The spec has the candidate
  match the stored Artifact "in BOTH revision and checksum", revisions being compared
  after the legacy transformation; a nil Artifact matches nothing.
\<close>

definition HasRevision :: "Env \<Rightarrow> Artifact option \<Rightarrow> string \<Rightarrow> bool" where
  "HasRevision r a revision =
     (case a of
        None \<Rightarrow> False
      | Some x \<Rightarrow> TransformLegacyRevision r (Revision x) = TransformLegacyRevision r revision)"

definition HasChecksum :: "Artifact option \<Rightarrow> string \<Rightarrow> bool" where
  "HasChecksum a checksum = (case a of None \<Rightarrow> False | Some x \<Rightarrow> Checksum x = checksum)"

definition squote :: string where
  "squote = [CHR 0x27]"

fun digits :: "nat \<Rightarrow> string" where
  "digits n =
     (if n < 10 then [char_of (48 + n)] else digits (n div 10) @ [char_of (48 + n mod 10)])"

declare digits.simps [simp del]

definition Sprintf_d :: "int \<Rightarrow> string" where
  "Sprintf_d i = (if i < 0 then ''-'' @ digits (nat (- i)) else digits (nat i))"

definition ProgressingReason :: string where
  "ProgressingReason = ''Progressing''"

definition SucceededReason :: string where
  "SucceededReason = ''Succeeded''"

definition FailedReason :: string where
  "FailedReason = ''Failed''"

definition EventTypeTrace :: string where
  "EventTypeTrace = ''Trace''"

definition EventTypeNormal :: string where
  "EventTypeNormal = ''Normal''"

definition Group :: string where
  "Group = ''source.toolkit.fluxcd.io''"

subsection \<open>garbageCollect and reconcileDelete\<close>

text \<open>
  \<open>garbageCollect\<close> returns the object as it leaves it, the calls it made and its
  error. The first branch is the full purge, the second the retention collection of the
  artifacts other than the current one.
\<close>

definition garbageCollect :: "Env \<Rightarrow> HelmRepository \<Rightarrow> HelmRepository \<times> Effect list \<times> go_error option" where
  "garbageCollect r ob =
     (if \<not> IsZero (DeletionTimestamp (ObjectMeta ob)) \<or>
         (SpecType (Spec ob) \<noteq> [] \<and> SpecType (Spec ob) \<noteq> HelmRepositoryTypeDefault)
      then
        (let a = Storage_NewArtifactFor r (Kind ob) (ObjectMeta ob) [] ''*'' in
         case Storage_RemoveAll r a of
           (deleted, Some err) \<Rightarrow>
             (ob, [Call_RemoveAll a],
              Some (Event (''garbage collection for deleted resource failed: '' @ Error err)
                      ''GarbageCollectionFailed''))
         | (deleted, None) \<Rightarrow>
             (ob\<lparr>Status := (Status ob)\<lparr>StatusArtifact := None, StatusURL := [], Conditions := None\<rparr>\<rparr>,
              [Call_RemoveAll a] @
              (if deleted \<noteq> []
               then [Call_Eventf EventTypeTrace ''GarbageCollectionSucceeded''
                       ''garbage collected artifacts for deleted resource'']
               else []),
              None))
      else
        (case StatusArtifact (Status ob) of
           Some a \<Rightarrow>
             (case Storage_GarbageCollect r a of
                (delFiles, Some err) \<Rightarrow>
                  (ob, [Call_GarbageCollect a],
                   Some (Event (''garbage collection of artifacts failed: '' @ Error err)
                           ''GarbageCollectionFailed''))
              | (delFiles, None) \<Rightarrow>
                  (ob,
                   [Call_GarbageCollect a] @
                   (if length delFiles > 0
                    then [Call_Eventf EventTypeTrace ''GarbageCollectionSucceeded''
                            (''garbage collected '' @ Sprintf_d (int (length delFiles)) @ '' artifacts'')]
                    else []),
                   None))
         | None \<Rightarrow> (ob, [], None)))"

definition reconcileDelete ::
    "Env \<Rightarrow> HelmRepository \<Rightarrow> HelmRepository \<times> Effect list \<times> Result \<times> go_error option" where
  "reconcileDelete r ob =
     (case garbageCollect r ob of
        (ob1, effs, Some err) \<Rightarrow> (ob1, effs, ResultEmpty, Some err)
      | (ob1, effs, None) \<Rightarrow>
          (if \<not> IsZero (DeletionTimestamp (ObjectMeta ob1))
           then (RemoveFinalizer ob1 SourceFinalizer, effs, ResultEmpty, None)
           else (ob1, effs, ResultEmpty, None)))"

subsection \<open>notify\<close>

definition notify ::
    "Env \<Rightarrow> HelmRepository \<Rightarrow> HelmRepository \<Rightarrow> ChartRepository \<Rightarrow> Result \<Rightarrow> go_error option \<Rightarrow> Effect list" where
  "notify r oldObj newObj repo res resErr =
     (case StatusArtifact (Status newObj) of
        None \<Rightarrow> []
      | Some newArtifact \<Rightarrow>
          if resErr = None \<and> res = ResultSuccess then
            (let annotations =
                   [(Group @ ''/revision'', Revision newArtifact),
                    (Group @ ''/checksum'', Checksum newArtifact)] @
                   (if Digest newArtifact \<noteq> [] then [(Group @ ''/digest'', Digest newArtifact)] else []);
                 humanReadableSize =
                   (case Size newArtifact of
                      Some sz \<Rightarrow> ''size '' @ HumanSize r sz
                    | None \<Rightarrow> ''unknown size'');
                 oldChecksum =
                   (case StatusArtifact (Status oldObj) of Some a \<Rightarrow> Checksum a | None \<Rightarrow> []);
                 message =
                   ''stored fetched index of '' @ humanReadableSize @ '' from '' @
                   squote @ RepoURL repo @ squote
             in if oldChecksum \<noteq> Checksum newArtifact
                then [Call_AnnotatedEventf annotations EventTypeNormal ''NewArtifact'' message]
                else if FailureRecovery r oldObj newObj helmRepositoryFailConditions
                then [Call_AnnotatedEventf annotations EventTypeNormal SucceededReason message]
                else [])
          else [])"

subsection \<open>reconcileStorage\<close>

definition reconcileStorage :: "Env \<Rightarrow> helmRepositoryReconcileFunc" where
  "reconcileStorage r s =
     (case garbageCollect r (obj s) of
        (ob0, gcEffects, gcErr) \<Rightarrow>
          (let artifactMissing =
                 (case StatusArtifact (Status ob0) of
                    Some a \<Rightarrow> \<not> Storage_ArtifactExist r a
                  | None \<Rightarrow> False);
               ob1 =
                 (if artifactMissing
                  then conditions_Delete
                         (ob0\<lparr>Status := (Status ob0)\<lparr>StatusArtifact := None, StatusURL := []\<rparr>\<rparr>)
                         ArtifactInStorageCondition
                  else ob0)
           in case StatusArtifact (Status ob1) of
                None \<Rightarrow>
                  (let msg = ''building artifact'' @
                             (if artifactMissing then '': disappeared from storage'' else []);
                       ob2 = ProgressiveStatus_on r True ob1 ProgressingReason msg;
                       ob3 = conditions_Delete ob2 ArtifactInStorageCondition
                   in case Patch r ob3 of
                        (ob4, Some err) \<Rightarrow>
                          (s\<lparr>obj := ob4, effects := effects s @ gcEffects @ [Call_Patch ob3]\<rparr>,
                           ResultEmpty, Some err)
                      | (ob4, None) \<Rightarrow>
                          (s\<lparr>obj := ob4, effects := effects s @ gcEffects @ [Call_Patch ob3]\<rparr>,
                           ResultSuccess, None))
              | Some a \<Rightarrow>
                  (let ob2 = ob1\<lparr>Status := (Status ob1)\<lparr>StatusArtifact := Some (Storage_SetArtifactURL r a)\<rparr>\<rparr>;
                       ob3 = ob2\<lparr>Status := (Status ob2)\<lparr>StatusURL := Storage_SetHostname r (StatusURL (Status ob2))\<rparr>\<rparr>
                   in (s\<lparr>obj := ob3, effects := effects s @ gcEffects\<rparr>, ResultSuccess, None))))"

subsection \<open>reconcileSource\<close>

definition AuthenticationFailedReason :: string where
  "AuthenticationFailedReason = ''AuthenticationFailed''"

definition URLInvalidReason :: string where
  "URLInvalidReason = ''URLInvalid''"

definition IndexationFailedReason :: string where
  "IndexationFailedReason = ''IndexationFailed''"

text \<open>
  \<open>reconcileSource_auth\<close> is the block "Configure any authentication related options"
  of \<open>reconcileSource\<close>. Its three failures end the same way (mark \<open>FetchFailed\<close> with
  the reason and message of the event, return it), so the block yields the event as
  \<open>Inl\<close>, or the TLS configuration and the client options as \<open>Inr\<close>.
  \<open>shortCircuit\<close> in \<open>reconcileSource\<close> is the "early comparison to current Artifact":
  it holds the stored artifact when the fetched index is an exact match.
\<close>

definition reconcileSource_auth ::
    "Env \<Rightarrow> HelmRepository \<Rightarrow> getter_Option list \<Rightarrow> go_error + (tls_Config option \<times> getter_Option list)" where
  "reconcileSource_auth r ob clientOpts =
     (case SecretRef (Spec ob) of
        None \<Rightarrow> Inr (None, clientOpts)
      | Some name \<Rightarrow>
          (case Client_Get_Secret r (Namespace (ObjectMeta ob)) name of
             Inl err \<Rightarrow>
               Inl (Event (''failed to get secret '' @ squote @ Namespace (ObjectMeta ob) @ ''/'' @
                           name @ squote @ '': '' @ Error err) AuthenticationFailedReason)
           | Inr secret \<Rightarrow>
               (case ClientOptionsFromSecret r secret of
                  Inl err \<Rightarrow>
                    Inl (Event (''failed to configure Helm client with secret data: '' @ Error err)
                           AuthenticationFailedReason)
                | Inr opts \<Rightarrow>
                    (case TLSClientConfigFromSecret r secret (SpecURL (Spec ob)) of
                       Inl err \<Rightarrow>
                         Inl (Event (''failed to create TLS client config with secret data: '' @ Error err)
                                AuthenticationFailedReason)
                     | Inr tlsConfig \<Rightarrow> Inr (tlsConfig, clientOpts @ opts)))))"

definition reconcileSource :: "Env \<Rightarrow> helmRepositoryReconcileFunc" where
  "reconcileSource r s =
     (let ob = obj s;
          clientOpts =
            [WithTimeout (Timeout (Spec ob)), WithURL (SpecURL (Spec ob)),
             WithPassCredentialsAll (PassCredentials (Spec ob))];
          authEffects =
            (case SecretRef (Spec ob) of
               None \<Rightarrow> []
             | Some name \<Rightarrow> [Call_Get_Secret (Namespace (ObjectMeta ob)) name]);
          failed = (\<lambda>e effs.
            (s\<lparr>obj := conditions_MarkTrue ob FetchFailedCondition (Reason e) (Error e),
               effects := effects s @ effs\<rparr>, ResultEmpty, Some e))
      in
      case reconcileSource_auth r ob clientOpts of
        Inl e \<Rightarrow> failed e authEffects
      | Inr (tlsConfig, opts) \<Rightarrow>
          (case NewChartRepository r (SpecURL (Spec ob)) tlsConfig opts of
             Inl (url_Error m) \<Rightarrow>
               failed (Stalling (''invalid Helm repository URL: '' @ m) URLInvalidReason) authEffects
           | Inl (other_Error m) \<Rightarrow>
               failed (Stalling (''failed to construct Helm client: '' @ m) FailedReason) authEffects
           | Inr newChartRepo \<Rightarrow>
               (case CacheIndex r newChartRepo of
                  (repo1, Some err) \<Rightarrow>
                    failed (Event (''failed to fetch Helm repository index: '' @ Error err) FailedReason)
                      (authEffects @ [Call_CacheIndex])
                | (repo1, None) \<Rightarrow>
                    (let shortCircuit =
                           (case StatusArtifact (Status ob) of
                              None \<Rightarrow> None
                            | Some curArtifact \<Rightarrow>
                                (let curDig =
                                       (if Digest curArtifact = []
                                        then TransformLegacyRevision r (Checksum curArtifact)
                                        else Digest curArtifact)
                                 in if Validate r curDig = None
                                    then (let newDig = ChartRepository_Digest r repo1 (Algorithm r curDig)
                                          in if Validate r newDig = None \<and> newDig = curDig
                                             then Some curArtifact else None)
                                    else None))
                     in case shortCircuit of
                          Some curArtifact \<Rightarrow>
                            (s\<lparr>obj := conditions_Delete ob FetchFailedCondition,
                               artifact := curArtifact,
                               chartRepo := repo1,
                               effects := effects s @ authEffects @ [Call_CacheIndex]\<rparr>,
                             ResultSuccess, None)
                        | None \<Rightarrow>
                            (case LoadFromPath r repo1 of
                               (repo2, Some err) \<Rightarrow>
                                 (case failed (Event (''failed to load Helm repository from index YAML: '' @
                                                      Error err) IndexationFailedReason)
                                         (authEffects @ [Call_CacheIndex, Call_LoadFromPath]) of
                                    (s1, res, e) \<Rightarrow> (s1\<lparr>chartRepo := repo2\<rparr>, res, e))
                             | (repo2, None) \<Rightarrow>
                                 (let ob1 = conditions_Delete ob FetchFailedCondition;
                                      changed =
                                        (case StatusArtifact (Status ob1) of
                                           None \<Rightarrow> False
                                         | Some a \<Rightarrow>
                                             (let curRev = TransformLegacyRevision r (Revision a)
                                              in Validate r curRev \<noteq> None \<or>
                                                 curRev \<noteq> ChartRepository_Digest r repo2 (Algorithm r curRev)));
                                      revision = ChartRepository_Digest r repo2 (Canonical r);
                                      effs = authEffects @ [Call_CacheIndex, Call_LoadFromPath]
                                  in if Validate r revision \<noteq> None
                                     then
                                       (s\<lparr>obj := conditions_MarkTrue ob1 FetchFailedCondition IndexationFailedReason
                                                   ''failed to calculate revision: %!w(<nil>)'',
                                          chartRepo := repo2,
                                          effects := effects s @ effs\<rparr>,
                                        ResultEmpty,
                                        Some (Event ''failed to calculate revision: %!w(<nil>)'' IndexationFailedReason))
                                     else
                                       (case (if StatusArtifact (Status ob1) = None \<or> changed
                                              then
                                                (let message = ''new index revision '' @ squote @ revision @ squote;
                                                     ob2 = (if StatusArtifact (Status ob1) \<noteq> None
                                                            then conditions_MarkTrue ob1 ArtifactOutdatedCondition
                                                                   ''NewRevision'' message
                                                            else ob1);
                                                     ob3 = ProgressiveStatus_on r True ob2 ProgressingReason
                                                             (''building artifact: '' @ message)
                                                 in case Patch r ob3 of
                                                      (ob4, perr) \<Rightarrow> (ob4, [Call_Patch ob3], perr))
                                              else (ob1, [], None)) of
                                          (ob5, patchEffects, Some err) \<Rightarrow>
                                            (s\<lparr>obj := ob5, chartRepo := repo2,
                                               effects := effects s @ effs @ patchEffects\<rparr>,
                                             ResultEmpty, Some err)
                                        | (ob5, patchEffects, None) \<Rightarrow>
                                            (s\<lparr>obj := ob5,
                                               artifact := Storage_NewArtifactFor r (Kind ob5) (ObjectMeta ob5)
                                                             revision (''index-'' @ Hex r revision @ ''.yaml''),
                                               chartRepo := repo2,
                                               effects := effects s @ effs @ patchEffects\<rparr>,
                                             ResultSuccess, None))))))))"

subsection \<open>reconcileArtifact\<close>

definition DirCreationFailedReason :: string where
  "DirCreationFailedReason = ''DirectoryCreationFailed''"

definition ArchiveOperationFailedReason :: string where
  "ArchiveOperationFailedReason = ''ArchiveOperationFailed''"

definition ArtifactUpToDateReason :: string where
  "ArtifactUpToDateReason = ''ArtifactUpToDate''"

definition CacheOperationFailedReason :: string where
  "CacheOperationFailedReason = ''CacheOperationFailed''"

definition SymlinkUpdateFailedReason :: string where
  "SymlinkUpdateFailedReason = ''SymlinkUpdateFailed''"

text \<open>
  The function defers two calls. The first one registered, which runs last, fixes the
  conditions when the stored artifact has the candidate's revision and clears the
  temporary index file; it is \<open>reconcileArtifact_deferred\<close>. The second is the unlock,
  registered once the lock is held, so it runs on every return after that point and
  before the first. \<open>reconcileArtifact_body\<close> is the rest of the function, with the
  unlock recorded at each of those returns.
\<close>

definition reconcileArtifact_deferred :: "Env \<Rightarrow> pass \<Rightarrow> pass" where
  "reconcileArtifact_deferred r s =
     (let ob = obj s;
          ob1 = (if HasRevision r (StatusArtifact (Status ob)) (Revision (artifact s))
                 then conditions_MarkTrue (conditions_Delete ob ArtifactOutdatedCondition)
                        ArtifactInStorageCondition SucceededReason
                        (''stored artifact: revision '' @ squote @ Revision (artifact s) @ squote)
                 else ob)
      in case Clear r (chartRepo s) of
           (repo1, err) \<Rightarrow> s\<lparr>obj := ob1, chartRepo := repo1, effects := effects s @ [Call_Clear]\<rparr>)"

definition reconcileArtifact_body :: "Env \<Rightarrow> helmRepositoryReconcileFunc" where
  "reconcileArtifact_body r s =
     (let ob = obj s; a = artifact s in
      if HasRevision r (StatusArtifact (Status ob)) (Revision a) \<and>
         HasChecksum (StatusArtifact (Status ob)) (Checksum a)
      then
        (s\<lparr>effects := effects s @
              (if Cache_configured r then [Call_Cache_SetExpiration (Path a)] else []) @
              [Call_Eventf EventTypeTrace ArtifactUpToDateReason
                 (''artifact up-to-date with remote revision: '' @ squote @ Revision a @ squote)]\<rparr>,
         ResultSuccess, None)
      else
        (case Storage_MkdirAll r a of
           Some err \<Rightarrow>
             (let e = Event (''failed to create artifact directory: '' @ Error err) DirCreationFailedReason
              in (s\<lparr>obj := conditions_MarkTrue ob StorageOperationFailedCondition (Reason e) (Error e),
                    effects := effects s @ [Call_MkdirAll a]\<rparr>,
                  ResultEmpty, Some e))
         | None \<Rightarrow>
             (case Storage_Lock r a of
                Some err \<Rightarrow>
                  (s\<lparr>effects := effects s @ [Call_MkdirAll a, Call_Lock a]\<rparr>,
                   ResultEmpty,
                   Some (Event (''failed to acquire lock for artifact: '' @ Error err) FailedReason))
              | None \<Rightarrow>
                  (case Storage_CopyFromPath r a (RepoPath (chartRepo s)) of
                     (a1, Some err) \<Rightarrow>
                       (let e = Event (''unable to save artifact to storage: '' @ Error err)
                                  ArchiveOperationFailedReason
                        in (s\<lparr>obj := conditions_MarkTrue ob StorageOperationFailedCondition (Reason e) (Error e),
                              artifact := a1,
                              effects := effects s @
                                [Call_MkdirAll a, Call_Lock a, Call_CopyFromPath a (RepoPath (chartRepo s)),
                                 Call_Unlock a]\<rparr>,
                            ResultEmpty, Some e))
                   | (a1, None) \<Rightarrow>
                       (let ob1 = ob\<lparr>Status := (Status ob)\<lparr>StatusArtifact := Some a1\<rparr>\<rparr>;
                            cacheEffects =
                              (case Index (chartRepo s) of
                                 Some index \<Rightarrow>
                                   if Cache_configured r
                                   then [Call_Cache_Set (Path a1) index] @
                                        (case Cache_Set r (Path a1) index of
                                           Some err \<Rightarrow>
                                             [Call_Eventf EventTypeTrace CacheOperationFailedReason
                                                (''failed to cache index: '' @ Error err)]
                                         | None \<Rightarrow> [])
                                   else []
                               | None \<Rightarrow> [])
                        in case Storage_Symlink r a1 ''index.yaml'' of
                             (indexURL, err) \<Rightarrow>
                               (let symlinkEffects =
                                      [Call_Symlink a1 ''index.yaml''] @
                                      (case err of
                                         Some e \<Rightarrow>
                                           [Call_Eventf EventTypeTrace SymlinkUpdateFailedReason
                                              (''failed to update status URL symlink: '' @ Error e)]
                                       | None \<Rightarrow> []);
                                    ob2 = (if indexURL \<noteq> []
                                           then ob1\<lparr>Status := (Status ob1)\<lparr>StatusURL := indexURL\<rparr>\<rparr>
                                           else ob1);
                                    ob3 = conditions_Delete ob2 StorageOperationFailedCondition
                                in (s\<lparr>obj := ob3,
                                      artifact := a1,
                                      effects := effects s @
                                        [Call_MkdirAll a, Call_Lock a,
                                         Call_CopyFromPath a (RepoPath (chartRepo s))] @
                                        cacheEffects @ symlinkEffects @ [Call_Unlock a]\<rparr>,
                                    ResultSuccess, None)))))))"

definition reconcileArtifact :: "Env \<Rightarrow> helmRepositoryReconcileFunc" where
  "reconcileArtifact r s =
     (case reconcileArtifact_body r s of
        (s1, res, err) \<Rightarrow> (reconcileArtifact_deferred r s1, res, err))"

subsection \<open>reconcile and Reconcile\<close>

text \<open>
  The loop over the sub-reconcilers leaves \<open>reconcile\<close> in one of two ways: by the
  \<open>return\<close> inside it (\<open>Returned\<close>), or by reaching the statements after it, through
  \<open>break\<close> or the end of the list (\<open>Finished\<close>, with \<open>res\<close> and \<open>resErr\<close>).
\<close>

datatype loop_exit = Returned pass | Finished pass Result "go_error option"

fun reconcile_loop :: "Env \<Rightarrow> helmRepositoryReconcileFunc list \<Rightarrow> pass \<Rightarrow> Result \<Rightarrow> loop_exit" where
  "reconcile_loop r [] s res = Finished s res None"
| "reconcile_loop r (rec # recs) s res =
     (case rec s of
        (s1, recResult, err) \<Rightarrow>
          if recResult = ResultRequeue then Returned s1
          else if err \<noteq> None then Finished s1 recResult err
          else reconcile_loop r recs s1 (LowestRequeuingResult r res recResult))"

text \<open>
  \<open>reconcile_progress\<close> is the block "Persist reconciling if generation differs or
  reconciliation is requested" at the head of \<open>reconcile\<close>, with the two statements
  before it: the object as the block leaves it, the patch it made, and the error of that
  patch.
\<close>

definition reconcile_progress ::
    "Env \<Rightarrow> HelmRepository \<Rightarrow> HelmRepository \<times> Effect list \<times> go_error option" where
  "reconcile_progress r ob =
     (let ob1 = ProgressiveStatus_on r False ob ProgressingReason ''reconciliation in progress'';
          reconcileAtVal =
            (case ReconcileAnnotationValue r (Annotations (ObjectMeta ob1)) of
               Some v \<Rightarrow> v
             | None \<Rightarrow> [])
      in if Generation (ObjectMeta ob1) \<noteq> ObservedGeneration (Status ob1)
         then
           (let ob2 = ProgressiveStatus_on r False ob1 ProgressingReason
                        (''processing object: new generation '' @
                         Sprintf_d (sint (ObservedGeneration (Status ob1))) @ '' -> '' @
                         Sprintf_d (sint (Generation (ObjectMeta ob1))))
            in case Patch r ob2 of (ob3, perr) \<Rightarrow> (ob3, [Call_Patch ob2], perr))
         else if reconcileAtVal \<noteq> LastHandledReconcileAt (Status ob1)
         then (case Patch r ob1 of (ob3, perr) \<Rightarrow> (ob3, [Call_Patch ob1], perr))
         else (ob1, [], None))"

definition reconcile ::
    "Env \<Rightarrow> HelmRepository \<Rightarrow> helmRepositoryReconcileFunc list \<Rightarrow>
     HelmRepository \<times> Effect list \<times> Result \<times> go_error option" where
  "reconcile r ob reconcilers =
     (let oldObj = ob in
      case reconcile_progress r ob of
        (ob4, patchEffects, Some err) \<Rightarrow> (ob4, patchEffects, ResultEmpty, Some err)
      | (ob4, patchEffects, None) \<Rightarrow>
          (case reconcile_loop r reconcilers
                  \<lparr>obj = ob4, artifact = Artifact_zero, chartRepo = ChartRepository_zero,
                   effects = patchEffects\<rparr> ResultEmpty of
             Returned s \<Rightarrow> (obj s, effects s, ResultRequeue, None)
           | Finished s res resErr \<Rightarrow>
               (obj s, effects s @ notify r oldObj (obj s) (chartRepo s) res resErr, res, resErr)))"

text \<open>
  \<open>Reconcile_body\<close> is \<open>Reconcile\<close> from the finalizer check to its \<open>return\<close>
  statements: what it leaves in the object, in \<open>recResult\<close> and in \<open>retErr\<close>.
  \<open>Reconcile\<close> adds the fetch of the object before it and the deferred
  summarize-and-patch after it, both collaborators.
\<close>

definition Reconcile_body ::
    "Env \<Rightarrow> HelmRepository \<Rightarrow> HelmRepository \<times> Effect list \<times> Result \<times> go_error option" where
  "Reconcile_body r ob =
     (if \<not> ContainsFinalizer ob SourceFinalizer
      then (AddFinalizer ob SourceFinalizer, [], ResultRequeue, None)
      else if \<not> IsZero (DeletionTimestamp (ObjectMeta ob)) \<or>
              (SpecType (Spec ob) \<noteq> [] \<and> SpecType (Spec ob) \<noteq> HelmRepositoryTypeDefault)
      then reconcileDelete r ob
      else if Suspend (Spec ob)
      then (ob, [], ResultEmpty, None)
      else reconcile r ob [reconcileStorage r, reconcileSource r, reconcileArtifact r])"

definition Reconcile ::
    "Env \<Rightarrow> string \<times> string \<Rightarrow> HelmRepository option \<times> Effect list \<times> ctrl_Result \<times> go_error option" where
  "Reconcile r req =
     (case Get r req of
        Inl err \<Rightarrow> (None, [], \<lparr>Requeue = False, RequeueAfter = 0\<rparr>, IgnoreNotFound r err)
      | Inr ob \<Rightarrow>
          (case Reconcile_body r ob of
             (ob1, effs, recResult, retErr) \<Rightarrow>
               (case SummarizeAndPatch r ob1 recResult retErr of
                  (ob2, result, retErr2) \<Rightarrow> (Some ob2, effs, result, retErr2))))"

section \<open>Vocabulary of the statements\<close>

text \<open>
  The outcomes of a list of sub-reconcilers run one after the other from a state, each
  on the state the one before left: the state, the result and the error of each.
  \<open>state_after\<close> is the state the last one leaves. An outcome is \<open>clean\<close> when it
  neither asks for a requeue nor carries an error.
\<close>

fun stage_outcomes ::
    "helmRepositoryReconcileFunc list \<Rightarrow> pass \<Rightarrow> (pass \<times> Result \<times> go_error option) list" where
  "stage_outcomes [] s = []"
| "stage_outcomes (rec # recs) s = rec s # stage_outcomes recs (fst (rec s))"

fun state_after :: "helmRepositoryReconcileFunc list \<Rightarrow> pass \<Rightarrow> pass" where
  "state_after [] s = s"
| "state_after (rec # recs) s = state_after recs (fst (rec s))"

definition clean :: "pass \<times> Result \<times> go_error option \<Rightarrow> bool" where
  "clean out = (fst (snd out) \<noteq> ResultRequeue \<and> snd (snd out) = None)"

section \<open>Example objects and collaborators\<close>

text \<open>
  Concrete inputs on which the theorems below are instantiated: a repository object in
  several states of its life, and collaborators that answer like a healthy cluster.
\<close>

definition example_artifact :: Artifact where
  "example_artifact =
     \<lparr>Path = ''helmrepository/flux-system/podinfo/index-abc.yaml'',
      URL = ''http://source-controller/helmrepository/flux-system/podinfo/index-abc.yaml'',
      Revision = ''sha256:abc'', Checksum = ''abc'', Digest = ''sha256:abc'',
      LastUpdateTime = 1, Size = Some 1024\<rparr>"

definition example_candidate :: Artifact where
  "example_candidate =
     \<lparr>Path = ''helmrepository/flux-system/podinfo/index-def.yaml'', URL = [],
      Revision = ''sha256:def'', Checksum = [], Digest = [], LastUpdateTime = 0, Size = None\<rparr>"

definition example_repo :: HelmRepository where
  "example_repo =
     \<lparr>Kind = ''HelmRepository'',
      ObjectMeta = \<lparr>Name = ''podinfo'', Namespace = ''flux-system'', Generation = 1,
                    DeletionTimestamp = None, Finalizers = [], Annotations = []\<rparr>,
      Spec = \<lparr>SpecURL = ''https://charts.example.com'', SecretRef = None, PassCredentials = False,
              Timeout = 60, Suspend = False, SpecType = []\<rparr>,
      Status = \<lparr>ObservedGeneration = 0, Conditions = None, StatusURL = [], StatusArtifact = None,
                LastHandledReconcileAt = []\<rparr>\<rparr>"

definition example_oci :: HelmRepository where
  "example_oci = example_repo\<lparr>Spec := (Spec example_repo)\<lparr>SpecType := ''oci''\<rparr>\<rparr>"

definition example_oci_observed :: HelmRepository where
  "example_oci_observed =
     example_oci\<lparr>Status := (Status example_oci)\<lparr>ObservedGeneration := - 1\<rparr>\<rparr>"

definition example_tracked :: HelmRepository where
  "example_tracked =
     example_repo\<lparr>ObjectMeta := (ObjectMeta example_repo)\<lparr>Finalizers := [''finalizers.fluxcd.io'']\<rparr>\<rparr>"

definition example_stored :: HelmRepository where
  "example_stored =
     example_tracked
       \<lparr>Status := \<lparr>ObservedGeneration = 1, Conditions = None,
                   StatusURL = ''http://source-controller/helmrepository/flux-system/podinfo/index.yaml'',
                   StatusArtifact = Some example_artifact, LastHandledReconcileAt = []\<rparr>\<rparr>"

definition example_recovering :: HelmRepository where
  "example_recovering =
     example_stored
       \<lparr>Status := (Status example_stored)
          \<lparr>Conditions := Some [\<lparr>CondType = ''FetchFailed'', CondStatus = ''True'',
                                CondReason = ''Failed'', CondMessage = ''connection refused''\<rparr>]\<rparr>\<rparr>"


definition example_deleted :: HelmRepository where
  "example_deleted =
     example_stored\<lparr>ObjectMeta := (ObjectMeta example_stored)\<lparr>DeletionTimestamp := Some 1700000000\<rparr>\<rparr>"

definition example_always :: Predicate where
  "example_always =
     \<lparr>Create = (\<lambda>e. True), Delete = (\<lambda>e. True), Update = (\<lambda>e. True), Generic = (\<lambda>e. True)\<rparr>"

definition example_never :: Predicate where
  "example_never =
     \<lparr>Create = (\<lambda>e. False), Delete = (\<lambda>e. False), Update = (\<lambda>e. False), Generic = (\<lambda>e. False)\<rparr>"

definition example_env :: Env where
  "example_env =
     \<lparr>Get = (\<lambda>req. Inl (Plain ''not found'')),
      IgnoreNotFound = (\<lambda>e. None),
      SummarizeAndPatch =
        (\<lambda>ob res err. (ob, \<lparr>Requeue = (res = ResultRequeue), RequeueAfter = 0\<rparr>, err)),
      Patch = (\<lambda>ob. (ob, None)),
      ProgressiveStatus = (\<lambda>drift cs reason message. cs),
      ReconcileAnnotationValue = (\<lambda>annotations. map_of annotations ''reconcile.fluxcd.io/requestedAt''),
      LowestRequeuingResult =
        (\<lambda>i j. if i = ResultEmpty then j else if j = ResultEmpty then i
               else if i = ResultRequeue then i else j),
      FailureRecovery =
        (\<lambda>oldObj newObj failConditions.
           list_ex (\<lambda>t. conditions_Get oldObj t \<noteq> None) failConditions \<and>
           list_all (\<lambda>t. conditions_Get newObj t = None) failConditions),
      HumanSize = (\<lambda>n. ''1kB''),
      Client_Get_Secret = (\<lambda>namespace name. Inr []),
      ClientOptionsFromSecret = (\<lambda>secret. Inr []),
      TLSClientConfigFromSecret = (\<lambda>secret url. Inr None),
      NewChartRepository = (\<lambda>url tlsConfig opts. Inr \<lparr>RepoURL = url, RepoPath = [], Index = None\<rparr>),
      CacheIndex = (\<lambda>repo. (repo\<lparr>RepoPath := ''/tmp/index.yaml''\<rparr>, None)),
      LoadFromPath = (\<lambda>repo. (repo\<lparr>Index := Some ''entries''\<rparr>, None)),
      ChartRepository_Digest = (\<lambda>repo algorithm. algorithm @ '':abc''),
      Clear = (\<lambda>repo. (repo\<lparr>RepoPath := [], Index := None\<rparr>, None)),
      Validate = (\<lambda>d. if d = ''sha256:abc'' then None else Some (Plain ''invalid digest'')),
      Algorithm = (\<lambda>d. takeWhile (\<lambda>c. c \<noteq> CHR '':'') d),
      Hex = (\<lambda>d. drop 1 (dropWhile (\<lambda>c. c \<noteq> CHR '':'') d)),
      Canonical = ''sha256'',
      TransformLegacyRevision = (\<lambda>revision. revision),
      Storage_NewArtifactFor =
        (\<lambda>kind meta revision fileName.
           Artifact_zero\<lparr>Path := ''helmrepository/'' @ Namespace meta @ ''/'' @ Name meta @ ''/'' @ fileName,
                          Revision := revision\<rparr>),
      Storage_ArtifactExist = (\<lambda>a. True),
      Storage_SetArtifactURL = (\<lambda>a. a\<lparr>URL := ''http://source-controller/'' @ Path a\<rparr>),
      Storage_SetHostname = (\<lambda>url. url),
      Storage_MkdirAll = (\<lambda>a. None),
      Storage_Lock = (\<lambda>a. None),
      Storage_CopyFromPath = (\<lambda>a path. (a\<lparr>Checksum := ''def'', Digest := ''sha256:def''\<rparr>, None)),
      Storage_Symlink =
        (\<lambda>a linkName. (''http://source-controller/helmrepository/flux-system/podinfo/'' @ linkName, None)),
      Storage_RemoveAll = (\<lambda>a. (''/data/helmrepository/flux-system/podinfo'', None)),
      Storage_GarbageCollect = (\<lambda>a. ([], None)),
      Cache_configured = False,
      Cache_Set = (\<lambda>key index. None)\<rparr>"

definition example_pass :: pass where
  "example_pass =
     \<lparr>obj = example_stored, artifact = Artifact_zero, chartRepo = ChartRepository_zero, effects = []\<rparr>"

definition example_stale_pass :: pass where
  "example_stale_pass =
     \<lparr>obj = example_stored, artifact = example_candidate,
      chartRepo = \<lparr>RepoURL = ''https://charts.example.com'', RepoPath = ''/tmp/index.yaml'',
                   Index = Some ''entries''\<rparr>,
      effects = []\<rparr>"

definition example_success_stage :: helmRepositoryReconcileFunc where
  "example_success_stage s = (s, ResultSuccess, None)"

definition example_requeue_stage :: helmRepositoryReconcileFunc where
  "example_requeue_stage s = (s, ResultRequeue, None)"

definition example_failing_stage :: helmRepositoryReconcileFunc where
  "example_failing_stage s = (s, ResultEmpty, Some (Plain ''stage failed''))"

definition example_marking_stage :: helmRepositoryReconcileFunc where
  "example_marking_stage s = (s\<lparr>effects := effects s @ [Call_Clear]\<rparr>, ResultSuccess, None)"

definition example_env_copy_fails :: Env where
  "example_env_copy_fails =
     example_env\<lparr>Storage_CopyFromPath := (\<lambda>a path. (a, Some (Plain ''no space left on device'')))\<rparr>"

definition example_env_symlink_fails :: Env where
  "example_env_symlink_fails =
     example_env\<lparr>Storage_Symlink := (\<lambda>a linkName. ([], Some (Plain ''read-only file system'')))\<rparr>"

definition example_env_purge_fails :: Env where
  "example_env_purge_fails =
     example_env\<lparr>Storage_RemoveAll := (\<lambda>a. ([], Some (Plain ''directory not empty'')))\<rparr>"

definition example_gc_fails :: "Artifact \<Rightarrow> string list \<times> go_error option" where
  "example_gc_fails a = ([], Some (Plain ''deadline exceeded''))"


section \<open>Auxiliary facts\<close>

lemma StatusArtifact_conditions_Delete [simp]:
  "StatusArtifact (Status (conditions_Delete ob t)) = StatusArtifact (Status ob)"
  by (simp add: conditions_Delete_def SetConditions_def)

lemma StatusArtifact_conditions_MarkTrue [simp]:
  "StatusArtifact (Status (conditions_MarkTrue ob t reason m)) = StatusArtifact (Status ob)"
  by (simp add: conditions_MarkTrue_def SetConditions_def)

lemma StatusURL_conditions_Delete [simp]:
  "StatusURL (Status (conditions_Delete ob t)) = StatusURL (Status ob)"
  by (simp add: conditions_Delete_def SetConditions_def)

lemma StatusURL_conditions_MarkTrue [simp]:
  "StatusURL (Status (conditions_MarkTrue ob t reason m)) = StatusURL (Status ob)"
  by (simp add: conditions_MarkTrue_def SetConditions_def)

lemma conditions_Get_Delete [simp]: "conditions_Get (conditions_Delete ob t) t = None"
  by (simp add: conditions_Get_def conditions_Delete_def SetConditions_def GetConditions_def
                find_None_iff)

lemma deferred_StatusArtifact [simp]:
  "StatusArtifact (Status (obj (reconcileArtifact_deferred r s))) = StatusArtifact (Status (obj s))"
  by (simp add: reconcileArtifact_deferred_def Let_def split: prod.splits)

lemma deferred_StatusURL [simp]:
  "StatusURL (Status (obj (reconcileArtifact_deferred r s))) = StatusURL (Status (obj s))"
  by (simp add: reconcileArtifact_deferred_def Let_def split: prod.splits)

lemma deferred_artifact [simp]: "artifact (reconcileArtifact_deferred r s) = artifact s"
  by (simp add: reconcileArtifact_deferred_def Let_def split: prod.splits)

lemma deferred_effects [simp]:
  "effects (reconcileArtifact_deferred r s) = effects s @ [Call_Clear]"
  by (simp add: reconcileArtifact_deferred_def Let_def split: prod.splits)

lemma notify_error [simp]: "notify r oldObj newObj repo res (Some e) = []"
  by (simp add: notify_def split: option.splits)

lemma clean_triple [simp]: "clean (s, rr, err) = (rr \<noteq> ResultRequeue \<and> err = None)"
  by (simp add: clean_def)

text \<open>
  A prefix of clean sub-reconcilers only threads the state and folds the results: the
  loop continues after it with the rest of the list.
\<close>

lemma reconcile_loop_clean_prefix:
  "list_all clean (stage_outcomes pre s) \<Longrightarrow>
   reconcile_loop r (pre @ post) s res =
   reconcile_loop r post (state_after pre s)
     (foldl (LowestRequeuingResult r) res (map (fst \<circ> snd) (stage_outcomes pre s)))"
proof (induction pre arbitrary: s res)
  case Nil
  then show ?case by simp
next
  case (Cons rec pre)
  obtain s1 rr err where out: "rec s = (s1, rr, err)" by (cases "rec s") auto
  with Cons.prems have "rr \<noteq> ResultRequeue" "err = None" "list_all clean (stage_outcomes pre s1)"
    by simp_all
  with out Cons.IH [of s1 "LowestRequeuingResult r res rr"] show ?case by simp
qed

lemma garbageCollect_steady:
  assumes "IsZero (DeletionTimestamp (ObjectMeta ob))"
      and "SpecType (Spec ob) = [] \<or> SpecType (Spec ob) = HelmRepositoryTypeDefault"
  shows "fst (garbageCollect r ob) = ob"
  using assms by (auto simp: garbageCollect_def split: option.splits prod.splits)

text \<open>
  After the garbage collection, \<open>reconcileStorage\<close> reads only the object the
  collection left, never its error.
\<close>

lemma reconcileStorage_after_gc:
  assumes "garbageCollect r (obj s) = (ob0, effs, e)"
      and "garbageCollect r' (obj s) = (ob0, effs', e')"
      and "Storage_ArtifactExist r' = Storage_ArtifactExist r"
      and "ProgressiveStatus r' = ProgressiveStatus r"
      and "Patch r' = Patch r"
      and "Storage_SetArtifactURL r' = Storage_SetArtifactURL r"
      and "Storage_SetHostname r' = Storage_SetHostname r"
  shows "obj (fst (reconcileStorage r' s)) = obj (fst (reconcileStorage r s)) \<and>
         snd (reconcileStorage r' s) = snd (reconcileStorage r s)"
  using assms
  by (simp add: reconcileStorage_def Let_def ProgressiveStatus_on_def
           split: option.splits prod.splits)

lemma reconcileStorage_error_is_patch_error:
  assumes "snd (snd (reconcileStorage r s)) = Some e"
  shows "\<exists>x. snd (Patch r x) = Some e"
proof -
  obtain ob0 effs ge where g: "garbageCollect r (obj s) = (ob0, effs, ge)"
    by (cases "garbageCollect r (obj s)") auto
  from assms g show ?thesis
    by (auto simp: reconcileStorage_def Let_def split: option.splits prod.splits if_splits)
       (metis snd_conv)+
qed

section \<open>The claims\<close>

subsection \<open>C1: the idempotency short-circuit of the source stage\<close>

text \<open>
  Claim C1. The object has a stored Artifact \<open>cur\<close>; its digest, or when it has none its
  legacy checksum after transformation, is \<open>curDig\<close> and validates; the index was fetched
  (authentication, construction of the repository and \<open>CacheIndex\<close> succeeded) and its
  digest under the algorithm of \<open>curDig\<close> equals \<open>curDig\<close>. Then the source stage returns
  success, the candidate is the stored Artifact itself, the object changes only by the
  removal of \<open>FetchFailed\<close>, and the only calls made are the secret lookup and the fetch:
  the index is not loaded for validation, nothing is patched, no new artifact is built.
  The artifact stage that follows returns success without writing: it creates no
  directory, takes no lock, copies nothing, sets no cache entry and no symlink; it only
  extends the cache entry when a cache is configured, records the up-to-date event and
  clears the temporary index. The status Artifact and published URL are the stored ones.
\<close>

theorem short_circuit_reuses_artifact:
  assumes stored: "StatusArtifact (Status (obj s)) = Some cur"
      and curDig: "curDig = (if Digest cur = [] then TransformLegacyRevision r (Checksum cur) else Digest cur)"
      and valid: "Validate r curDig = None"
      and auth: "reconcileSource_auth r (obj s)
                   [WithTimeout (Timeout (Spec (obj s))), WithURL (SpecURL (Spec (obj s))),
                    WithPassCredentialsAll (PassCredentials (Spec (obj s)))] = Inr (tlsConfig, opts)"
      and repo: "NewChartRepository r (SpecURL (Spec (obj s))) tlsConfig opts = Inr repo0"
      and fetched: "CacheIndex r repo0 = (repo1, None)"
      and same: "ChartRepository_Digest r repo1 (Algorithm r curDig) = curDig"
      and source: "reconcileSource r s = (s1, res1, err1)"
      and stage: "reconcileArtifact r s1 = (s2, res2, err2)"
  shows "res1 = ResultSuccess \<and> err1 = None \<and>
         artifact s1 = cur \<and>
         obj s1 = conditions_Delete (obj s) FetchFailedCondition \<and>
         StatusArtifact (Status (obj s1)) = Some cur \<and>
         conditions_Get (obj s1) FetchFailedCondition = None \<and>
         chartRepo s1 = repo1 \<and>
         effects s1 = effects s @
           (case SecretRef (Spec (obj s)) of
              None \<Rightarrow> []
            | Some name \<Rightarrow> [Call_Get_Secret (Namespace (ObjectMeta (obj s))) name]) @
           [Call_CacheIndex] \<and>
         res2 = ResultSuccess \<and> err2 = None \<and>
         artifact s2 = cur \<and>
         StatusArtifact (Status (obj s2)) = Some cur \<and>
         StatusURL (Status (obj s2)) = StatusURL (Status (obj s)) \<and>
         effects s2 = effects s1 @
           (if Cache_configured r then [Call_Cache_SetExpiration (Path cur)] else []) @
           [Call_Eventf EventTypeTrace ArtifactUpToDateReason
              (''artifact up-to-date with remote revision: '' @ squote @ Revision cur @ squote),
            Call_Clear]"
proof -
  have first: "reconcileSource r s =
          (s\<lparr>obj := conditions_Delete (obj s) FetchFailedCondition,
             artifact := cur,
             chartRepo := repo1,
             effects := effects s @
               (case SecretRef (Spec (obj s)) of
                  None \<Rightarrow> []
                | Some name \<Rightarrow> [Call_Get_Secret (Namespace (ObjectMeta (obj s))) name]) @
               [Call_CacheIndex]\<rparr>,
           ResultSuccess, None)"
    using stored valid auth repo fetched same
    unfolding curDig reconcileSource_def Let_def
    by simp
  with source have s1: "s1 = s\<lparr>obj := conditions_Delete (obj s) FetchFailedCondition,
             artifact := cur,
             chartRepo := repo1,
             effects := effects s @
               (case SecretRef (Spec (obj s)) of
                  None \<Rightarrow> []
                | Some name \<Rightarrow> [Call_Get_Secret (Namespace (ObjectMeta (obj s))) name]) @
               [Call_CacheIndex]\<rparr>"
    and r1: "res1 = ResultSuccess" "err1 = None"
    by simp_all
  have current: "HasRevision r (StatusArtifact (Status (obj s1))) (Revision (artifact s1)) \<and>
                 HasChecksum (StatusArtifact (Status (obj s1))) (Checksum (artifact s1))"
    using stored by (simp add: s1 HasRevision_def HasChecksum_def)
  have second: "reconcileArtifact r s1 =
          (reconcileArtifact_deferred r
             (s1\<lparr>effects := effects s1 @
                   (if Cache_configured r then [Call_Cache_SetExpiration (Path (artifact s1))] else []) @
                   [Call_Eventf EventTypeTrace ArtifactUpToDateReason
                      (''artifact up-to-date with remote revision: '' @ squote @
                       Revision (artifact s1) @ squote)]\<rparr>),
           ResultSuccess, None)"
    using current by (simp add: reconcileArtifact_def reconcileArtifact_body_def Let_def)
  with stage have s2: "s2 = reconcileArtifact_deferred r
             (s1\<lparr>effects := effects s1 @
                   (if Cache_configured r then [Call_Cache_SetExpiration (Path (artifact s1))] else []) @
                   [Call_Eventf EventTypeTrace ArtifactUpToDateReason
                      (''artifact up-to-date with remote revision: '' @ squote @
                       Revision (artifact s1) @ squote)]\<rparr>)"
    and r2: "res2 = ResultSuccess" "err2 = None"
    by simp_all
  have a1: "artifact s1 = cur" and o1: "obj s1 = conditions_Delete (obj s) FetchFailedCondition"
    and c1: "chartRepo s1 = repo1"
    and e1: "effects s1 = effects s @
           (case SecretRef (Spec (obj s)) of
              None \<Rightarrow> []
            | Some name \<Rightarrow> [Call_Get_Secret (Namespace (ObjectMeta (obj s))) name]) @
           [Call_CacheIndex]"
    by (simp_all add: s1)
  show ?thesis
    using r1 r2 a1 o1 c1 e1 stored by (simp add: s2)
qed

text \<open>
  The theorem at the stored example object, whose artifact has the digest \<open>sha256:abc\<close>
  that the example index also has.
\<close>

theorem short_circuit_reuses_artifact_witness:
  "StatusArtifact (Status (obj example_pass)) = Some example_artifact \<and>
   Validate example_env ''sha256:abc'' = None \<and>
   fst (snd (reconcileSource example_env example_pass)) = ResultSuccess \<and>
   snd (snd (reconcileSource example_env example_pass)) = None \<and>
   artifact (fst (reconcileSource example_env example_pass)) = example_artifact \<and>
   fst (snd (reconcileArtifact example_env (fst (reconcileSource example_env example_pass)))) = ResultSuccess \<and>
   StatusArtifact (Status (obj (fst (reconcileArtifact example_env
       (fst (reconcileSource example_env example_pass)))))) = Some example_artifact"
proof -
  have stored: "StatusArtifact (Status (obj example_pass)) = Some example_artifact"
    by (simp add: example_pass_def example_stored_def)
  have curDig: "''sha256:abc'' =
      (if Digest example_artifact = []
       then TransformLegacyRevision example_env (Checksum example_artifact)
       else Digest example_artifact)"
    by (simp add: example_artifact_def)
  have valid: "Validate example_env ''sha256:abc'' = None"
    by (simp add: example_env_def)
  have auth: "reconcileSource_auth example_env (obj example_pass)
                [WithTimeout (Timeout (Spec (obj example_pass))),
                 WithURL (SpecURL (Spec (obj example_pass))),
                 WithPassCredentialsAll (PassCredentials (Spec (obj example_pass)))] =
              Inr (None,
                [WithTimeout (Timeout (Spec (obj example_pass))),
                 WithURL (SpecURL (Spec (obj example_pass))),
                 WithPassCredentialsAll (PassCredentials (Spec (obj example_pass)))])"
    by (simp add: reconcileSource_auth_def example_pass_def example_stored_def example_tracked_def
                  example_repo_def)
  have repo: "NewChartRepository example_env (SpecURL (Spec (obj example_pass))) None
                [WithTimeout (Timeout (Spec (obj example_pass))),
                 WithURL (SpecURL (Spec (obj example_pass))),
                 WithPassCredentialsAll (PassCredentials (Spec (obj example_pass)))] =
              Inr \<lparr>RepoURL = SpecURL (Spec (obj example_pass)), RepoPath = [], Index = None\<rparr>"
    by (simp add: example_env_def)
  have fetched: "CacheIndex example_env
                   \<lparr>RepoURL = SpecURL (Spec (obj example_pass)), RepoPath = [], Index = None\<rparr> =
                 (\<lparr>RepoURL = SpecURL (Spec (obj example_pass)), RepoPath = ''/tmp/index.yaml'',
                   Index = None\<rparr>, None)"
    by (simp add: example_env_def)
  have same: "ChartRepository_Digest example_env
                \<lparr>RepoURL = SpecURL (Spec (obj example_pass)), RepoPath = ''/tmp/index.yaml'',
                 Index = None\<rparr>
                (Algorithm example_env ''sha256:abc'') = ''sha256:abc''"
    by (simp add: example_env_def)
  have source: "reconcileSource example_env example_pass =
      (fst (reconcileSource example_env example_pass),
       fst (snd (reconcileSource example_env example_pass)),
       snd (snd (reconcileSource example_env example_pass)))"
    by simp
  have stage: "reconcileArtifact example_env (fst (reconcileSource example_env example_pass)) =
      (fst (reconcileArtifact example_env (fst (reconcileSource example_env example_pass))),
       fst (snd (reconcileArtifact example_env (fst (reconcileSource example_env example_pass)))),
       snd (snd (reconcileArtifact example_env (fst (reconcileSource example_env example_pass)))))"
    by simp
  from short_circuit_reuses_artifact [OF stored curDig valid auth repo fetched same source stage]
  show ?thesis using stored valid by simp
qed

subsection \<open>C2: a failed write leaves the status Artifact alone\<close>

text \<open>
  Claim C2. When the candidate is not already current and the creation of the directory,
  the lock or the copy into storage returns an error, the artifact stage returns an
  error (with the empty result) and the status Artifact of the object is the one it had
  before the stage. More generally every error return of the stage leaves the status
  Artifact as it was; and when the stage does change it, the three steps had succeeded,
  the copy was made, and the new status Artifact is the artifact as the copy left it.
\<close>

theorem storage_failure_keeps_artifact:
  assumes run: "reconcileArtifact r s = (s', res, err)"
  shows "(\<not> (HasRevision r (StatusArtifact (Status (obj s))) (Revision (artifact s)) \<and>
             HasChecksum (StatusArtifact (Status (obj s))) (Checksum (artifact s))) \<and>
          (Storage_MkdirAll r (artifact s) \<noteq> None \<or>
           Storage_Lock r (artifact s) \<noteq> None \<or>
           snd (Storage_CopyFromPath r (artifact s) (RepoPath (chartRepo s))) \<noteq> None)
          \<longrightarrow> err \<noteq> None \<and> res = ResultEmpty \<and>
              StatusArtifact (Status (obj s')) = StatusArtifact (Status (obj s))) \<and>
         (err \<noteq> None \<longrightarrow> StatusArtifact (Status (obj s')) = StatusArtifact (Status (obj s))) \<and>
         (StatusArtifact (Status (obj s')) \<noteq> StatusArtifact (Status (obj s)) \<longrightarrow>
            Storage_MkdirAll r (artifact s) = None \<and>
            Storage_Lock r (artifact s) = None \<and>
            Storage_CopyFromPath r (artifact s) (RepoPath (chartRepo s)) = (artifact s', None) \<and>
            StatusArtifact (Status (obj s')) = Some (artifact s') \<and>
            Call_CopyFromPath (artifact s) (RepoPath (chartRepo s)) \<in> set (effects s'))"
  using run
  by (auto simp: reconcileArtifact_def reconcileArtifact_body_def Let_def
           split: if_splits option.splits prod.splits)

text \<open>
  The theorem where the copy fails for a new candidate: the stored artifact stays.
\<close>

theorem storage_failure_keeps_artifact_witness:
  "\<not> (HasRevision example_env_copy_fails (StatusArtifact (Status (obj example_stale_pass)))
         (Revision (artifact example_stale_pass)) \<and>
       HasChecksum (StatusArtifact (Status (obj example_stale_pass)))
         (Checksum (artifact example_stale_pass))) \<and>
   snd (Storage_CopyFromPath example_env_copy_fails (artifact example_stale_pass)
          (RepoPath (chartRepo example_stale_pass))) \<noteq> None \<and>
   snd (snd (reconcileArtifact example_env_copy_fails example_stale_pass)) \<noteq> None \<and>
   fst (snd (reconcileArtifact example_env_copy_fails example_stale_pass)) = ResultEmpty \<and>
   StatusArtifact (Status (obj (fst (reconcileArtifact example_env_copy_fails example_stale_pass)))) =
     Some example_artifact"
proof -
  have run: "reconcileArtifact example_env_copy_fails example_stale_pass =
      (fst (reconcileArtifact example_env_copy_fails example_stale_pass),
       fst (snd (reconcileArtifact example_env_copy_fails example_stale_pass)),
       snd (snd (reconcileArtifact example_env_copy_fails example_stale_pass)))"
    by simp
  have stale: "\<not> (HasRevision example_env_copy_fails (StatusArtifact (Status (obj example_stale_pass)))
         (Revision (artifact example_stale_pass)) \<and>
       HasChecksum (StatusArtifact (Status (obj example_stale_pass)))
         (Checksum (artifact example_stale_pass)))"
    by (simp add: HasRevision_def example_env_copy_fails_def example_env_def example_stale_pass_def
                  example_stored_def example_artifact_def example_candidate_def)
  have fails: "snd (Storage_CopyFromPath example_env_copy_fails (artifact example_stale_pass)
          (RepoPath (chartRepo example_stale_pass))) \<noteq> None"
    by (simp add: example_env_copy_fails_def)
  have before: "StatusArtifact (Status (obj example_stale_pass)) = Some example_artifact"
    by (simp add: example_stale_pass_def example_stored_def)
  from storage_failure_keeps_artifact [OF run] stale fails before
  show ?thesis by simp
qed


subsection \<open>C3: the loop over the sub-reconcilers\<close>

text \<open>
  Claim C3. Once the progress block at the head of \<open>reconcile\<close> has succeeded, the loop
  starts in the state \<open>s0\<close> with the empty result, and for any list of sub-reconcilers:
  \<^item> if those before some sub-reconciler are all clean and it returns \<open>ResultRequeue\<close>
    (with or without an error), \<open>reconcile\<close> returns \<open>ResultRequeue\<close> and no error, and
    the object and the recorded calls are those this sub-reconciler left, whatever
    sub-reconcilers follow it in the list: none of them runs, and nothing is notified;
  \<^item> if those before it are all clean and it returns an error with a result other
    than \<open>ResultRequeue\<close>, \<open>reconcile\<close> returns that result and that error, again with
    the object and calls it left, whatever follows in the list;
  \<^item> if all are clean, the result is the left fold of \<open>LowestRequeuingResult\<close> over
    their results, from the empty result, with no error.
  The requeue is tested before the error, so a sub-reconciler that returns both counts
  as a requeue.
\<close>

theorem pipeline_loop_outcome:
  assumes progress: "reconcile_progress r ob = (ob0, effs0, None)"
      and start: "s0 = \<lparr>obj = ob0, artifact = Artifact_zero, chartRepo = ChartRepository_zero,
                        effects = effs0\<rparr>"
  shows "(list_all clean (stage_outcomes pre s0) \<and>
          rec (state_after pre s0) = (s2, ResultRequeue, err) \<longrightarrow>
            reconcile r ob (pre @ rec # post) = (obj s2, effects s2, ResultRequeue, None)) \<and>
         (list_all clean (stage_outcomes pre s0) \<and>
          rec (state_after pre s0) = (s2, res, Some e) \<and> res \<noteq> ResultRequeue \<longrightarrow>
            reconcile r ob (pre @ rec # post) = (obj s2, effects s2, res, Some e)) \<and>
         (list_all clean (stage_outcomes recs s0) \<longrightarrow>
            reconcile r ob recs =
              (let sN = state_after recs s0;
                   resN = foldl (LowestRequeuingResult r) ResultEmpty
                            (map (fst \<circ> snd) (stage_outcomes recs s0))
               in (obj sN, effects sN @ notify r ob (obj sN) (chartRepo sN) resN None, resN, None)))"
proof (intro conjI impI)
  assume "list_all clean (stage_outcomes pre s0) \<and>
          rec (state_after pre s0) = (s2, ResultRequeue, err)"
  then have "reconcile_loop r (pre @ rec # post) s0 ResultEmpty = Returned s2"
    by (simp add: reconcile_loop_clean_prefix)
  with progress start
  show "reconcile r ob (pre @ rec # post) = (obj s2, effects s2, ResultRequeue, None)"
    by (simp add: reconcile_def)
next
  assume "list_all clean (stage_outcomes pre s0) \<and>
          rec (state_after pre s0) = (s2, res, Some e) \<and> res \<noteq> ResultRequeue"
  then have "reconcile_loop r (pre @ rec # post) s0 ResultEmpty = Finished s2 res (Some e)"
    by (simp add: reconcile_loop_clean_prefix)
  with progress start
  show "reconcile r ob (pre @ rec # post) = (obj s2, effects s2, res, Some e)"
    by (simp add: reconcile_def)
next
  assume all_clean: "list_all clean (stage_outcomes recs s0)"
  from reconcile_loop_clean_prefix [OF all_clean, of r "[]" ResultEmpty]
  have "reconcile_loop r recs s0 ResultEmpty =
          Finished (state_after recs s0)
            (foldl (LowestRequeuingResult r) ResultEmpty (map (fst \<circ> snd) (stage_outcomes recs s0)))
            None"
    by simp
  with progress start
  show "reconcile r ob recs =
              (let sN = state_after recs s0;
                   resN = foldl (LowestRequeuingResult r) ResultEmpty
                            (map (fst \<circ> snd) (stage_outcomes recs s0))
               in (obj sN, effects sN @ notify r ob (obj sN) (chartRepo sN) resN None, resN, None))"
    by (simp add: reconcile_def Let_def)
qed

text \<open>
  The theorem on three lists of small sub-reconcilers: a requeue and a failure after a
  successful one, each followed by a sub-reconciler that would record a call, and a list
  of two successful ones.
\<close>

theorem pipeline_loop_outcome_witness:
  "snd (snd (reconcile_progress example_env example_tracked)) = None \<and>
   reconcile example_env example_tracked
     [example_success_stage, example_requeue_stage, example_marking_stage] =
     (fst (reconcile_progress example_env example_tracked),
      fst (snd (reconcile_progress example_env example_tracked)), ResultRequeue, None) \<and>
   reconcile example_env example_tracked
     [example_success_stage, example_failing_stage, example_marking_stage] =
     (fst (reconcile_progress example_env example_tracked),
      fst (snd (reconcile_progress example_env example_tracked)), ResultEmpty,
      Some (Plain ''stage failed'')) \<and>
   snd (snd (reconcile example_env example_tracked [example_success_stage, example_marking_stage])) =
     (ResultSuccess, None)"
proof -
  let ?ob0 = "fst (reconcile_progress example_env example_tracked)"
  let ?effs0 = "fst (snd (reconcile_progress example_env example_tracked))"
  let ?s0 = "\<lparr>obj = ?ob0, artifact = Artifact_zero, chartRepo = ChartRepository_zero,
               effects = ?effs0\<rparr>"
  have no_error: "snd (snd (reconcile_progress example_env example_tracked)) = None"
    by (simp add: reconcile_progress_def Let_def ProgressiveStatus_on_def SetConditions_def
                  example_env_def example_tracked_def example_repo_def)
  then have progress: "reconcile_progress example_env example_tracked = (?ob0, ?effs0, None)"
    by (metis prod.collapse)
  have clean1: "list_all clean (stage_outcomes [example_success_stage] ?s0)"
    by (simp add: example_success_stage_def)
  have requeue: "example_requeue_stage (state_after [example_success_stage] ?s0) =
                   (?s0, ResultRequeue, None)"
    by (simp add: example_success_stage_def example_requeue_stage_def)
  have failing: "example_failing_stage (state_after [example_success_stage] ?s0) =
                   (?s0, ResultEmpty, Some (Plain ''stage failed'')) \<and> ResultEmpty \<noteq> ResultRequeue"
    by (simp add: example_success_stage_def example_failing_stage_def)
  have clean2: "list_all clean (stage_outcomes [example_success_stage, example_marking_stage] ?s0)"
    by (simp add: example_success_stage_def example_marking_stage_def)
  have folded: "foldl (LowestRequeuingResult example_env) ResultEmpty
                  (map (fst \<circ> snd) (stage_outcomes [example_success_stage, example_marking_stage] ?s0)) =
                ResultSuccess"
    by (simp add: example_success_stage_def example_marking_stage_def example_env_def)
  note inst = pipeline_loop_outcome [OF progress refl]
  from inst [where pre = "[example_success_stage]" and rec = example_requeue_stage and ?s2.0 = ?s0
                and err = None and post = "[example_marking_stage]"]
       clean1 requeue
  have first: "reconcile example_env example_tracked
     [example_success_stage, example_requeue_stage, example_marking_stage] =
     (?ob0, ?effs0, ResultRequeue, None)"
    by simp
  from inst [where pre = "[example_success_stage]" and rec = example_failing_stage and ?s2.0 = ?s0
                and res = ResultEmpty and e = "Plain ''stage failed''"
                and post = "[example_marking_stage]"]
       clean1 failing
  have second: "reconcile example_env example_tracked
     [example_success_stage, example_failing_stage, example_marking_stage] =
     (?ob0, ?effs0, ResultEmpty, Some (Plain ''stage failed''))"
    by simp
  from inst [where recs = "[example_success_stage, example_marking_stage]"] clean2 folded
  have third: "snd (snd (reconcile example_env example_tracked
                  [example_success_stage, example_marking_stage])) = (ResultSuccess, None)"
    by (simp add: Let_def)
  from no_error first second third show ?thesis by simp
qed

subsection \<open>C4: errors of the garbage collection\<close>

text \<open>
  Claim C4. In the steady state (no deletion timestamp, type unset or default) the
  storage stage leaves the same object and returns the same result and error whatever
  the garbage collection of the store answers; and in any state an error it returns is
  the error of a patch, never that of the collection. On the deletion path (the
  finalizer is present and the object is marked for deletion or has another type)
  \<open>Reconcile\<close> hands over to \<open>reconcileDelete\<close>: when the purge fails, an error is
  returned and the object, its finalizers included, is untouched; when the purge
  succeeds, no error is returned, the status Artifact, the published URL and the
  conditions are cleared, and the finalizer is removed if the deletion timestamp is set
  and kept otherwise. Whenever \<open>reconcileDelete\<close> removes the finalizer, the deletion
  timestamp was set and the purge had succeeded.
\<close>

theorem gc_errors_swallowed_or_returned:
  "(IsZero (DeletionTimestamp (ObjectMeta (obj s))) \<and>
    (SpecType (Spec (obj s)) = [] \<or> SpecType (Spec (obj s)) = HelmRepositoryTypeDefault) \<longrightarrow>
      obj (fst (reconcileStorage (r\<lparr>Storage_GarbageCollect := gc\<rparr>) s)) = obj (fst (reconcileStorage r s)) \<and>
      snd (reconcileStorage (r\<lparr>Storage_GarbageCollect := gc\<rparr>) s) = snd (reconcileStorage r s)) \<and>
   (\<forall>e. snd (snd (reconcileStorage r s)) = Some e \<longrightarrow> (\<exists>x. snd (Patch r x) = Some e)) \<and>
   (ContainsFinalizer ob SourceFinalizer \<and>
    (\<not> IsZero (DeletionTimestamp (ObjectMeta ob)) \<or>
     (SpecType (Spec ob) \<noteq> [] \<and> SpecType (Spec ob) \<noteq> HelmRepositoryTypeDefault)) \<longrightarrow>
      Reconcile_body r ob = reconcileDelete r ob \<and>
      (\<forall>deleted e. Storage_RemoveAll r (Storage_NewArtifactFor r (Kind ob) (ObjectMeta ob) [] ''*'') =
                     (deleted, Some e) \<longrightarrow>
         (\<exists>effs err. reconcileDelete r ob = (ob, effs, ResultEmpty, Some err))) \<and>
      (\<forall>deleted. Storage_RemoveAll r (Storage_NewArtifactFor r (Kind ob) (ObjectMeta ob) [] ''*'') =
                   (deleted, None) \<longrightarrow>
         (\<exists>ob' effs. reconcileDelete r ob = (ob', effs, ResultEmpty, None) \<and>
            StatusArtifact (Status ob') = None \<and> StatusURL (Status ob') = [] \<and>
            Conditions (Status ob') = None \<and>
            (if IsZero (DeletionTimestamp (ObjectMeta ob))
             then Finalizers (ObjectMeta ob') = Finalizers (ObjectMeta ob)
             else SourceFinalizer \<notin> set (Finalizers (ObjectMeta ob')))))) \<and>
   (SourceFinalizer \<in> set (Finalizers (ObjectMeta ob)) \<and>
    SourceFinalizer \<notin> set (Finalizers (ObjectMeta (fst (reconcileDelete r ob)))) \<longrightarrow>
      \<not> IsZero (DeletionTimestamp (ObjectMeta ob)) \<and>
      snd (Storage_RemoveAll r (Storage_NewArtifactFor r (Kind ob) (ObjectMeta ob) [] ''*'')) = None \<and>
      snd (snd (snd (reconcileDelete r ob))) = None)"
proof (intro conjI)
  show "IsZero (DeletionTimestamp (ObjectMeta (obj s))) \<and>
    (SpecType (Spec (obj s)) = [] \<or> SpecType (Spec (obj s)) = HelmRepositoryTypeDefault) \<longrightarrow>
      obj (fst (reconcileStorage (r\<lparr>Storage_GarbageCollect := gc\<rparr>) s)) = obj (fst (reconcileStorage r s)) \<and>
      snd (reconcileStorage (r\<lparr>Storage_GarbageCollect := gc\<rparr>) s) = snd (reconcileStorage r s)"
  proof
    assume steady: "IsZero (DeletionTimestamp (ObjectMeta (obj s))) \<and>
      (SpecType (Spec (obj s)) = [] \<or> SpecType (Spec (obj s)) = HelmRepositoryTypeDefault)"
    obtain effs e where g: "garbageCollect r (obj s) = (obj s, effs, e)"
      using garbageCollect_steady [of "obj s" r] steady by (cases "garbageCollect r (obj s)") auto
    obtain effs' e' where
      g': "garbageCollect (r\<lparr>Storage_GarbageCollect := gc\<rparr>) (obj s) = (obj s, effs', e')"
      using garbageCollect_steady [of "obj s" "r\<lparr>Storage_GarbageCollect := gc\<rparr>"] steady
      by (cases "garbageCollect (r\<lparr>Storage_GarbageCollect := gc\<rparr>) (obj s)") auto
    show "obj (fst (reconcileStorage (r\<lparr>Storage_GarbageCollect := gc\<rparr>) s)) =
            obj (fst (reconcileStorage r s)) \<and>
          snd (reconcileStorage (r\<lparr>Storage_GarbageCollect := gc\<rparr>) s) = snd (reconcileStorage r s)"
      by (rule reconcileStorage_after_gc [OF g g']) simp_all
  qed
next
  show "\<forall>e. snd (snd (reconcileStorage r s)) = Some e \<longrightarrow> (\<exists>x. snd (Patch r x) = Some e)"
    using reconcileStorage_error_is_patch_error by blast
next
  show "ContainsFinalizer ob SourceFinalizer \<and>
    (\<not> IsZero (DeletionTimestamp (ObjectMeta ob)) \<or>
     (SpecType (Spec ob) \<noteq> [] \<and> SpecType (Spec ob) \<noteq> HelmRepositoryTypeDefault)) \<longrightarrow>
      Reconcile_body r ob = reconcileDelete r ob \<and>
      (\<forall>deleted e. Storage_RemoveAll r (Storage_NewArtifactFor r (Kind ob) (ObjectMeta ob) [] ''*'') =
                     (deleted, Some e) \<longrightarrow>
         (\<exists>effs err. reconcileDelete r ob = (ob, effs, ResultEmpty, Some err))) \<and>
      (\<forall>deleted. Storage_RemoveAll r (Storage_NewArtifactFor r (Kind ob) (ObjectMeta ob) [] ''*'') =
                   (deleted, None) \<longrightarrow>
         (\<exists>ob' effs. reconcileDelete r ob = (ob', effs, ResultEmpty, None) \<and>
            StatusArtifact (Status ob') = None \<and> StatusURL (Status ob') = [] \<and>
            Conditions (Status ob') = None \<and>
            (if IsZero (DeletionTimestamp (ObjectMeta ob))
             then Finalizers (ObjectMeta ob') = Finalizers (ObjectMeta ob)
             else SourceFinalizer \<notin> set (Finalizers (ObjectMeta ob')))))"
    by (auto simp: Reconcile_body_def reconcileDelete_def garbageCollect_def Let_def
                   RemoveFinalizer_def)
next
  show "SourceFinalizer \<in> set (Finalizers (ObjectMeta ob)) \<and>
    SourceFinalizer \<notin> set (Finalizers (ObjectMeta (fst (reconcileDelete r ob)))) \<longrightarrow>
      \<not> IsZero (DeletionTimestamp (ObjectMeta ob)) \<and>
      snd (Storage_RemoveAll r (Storage_NewArtifactFor r (Kind ob) (ObjectMeta ob) [] ''*'')) = None \<and>
      snd (snd (snd (reconcileDelete r ob))) = None"
    by (auto simp: reconcileDelete_def garbageCollect_def Let_def RemoveFinalizer_def
             split: option.splits prod.splits if_splits)
qed

text \<open>
  The theorem at the stored example object with a collection that fails, and at the
  object marked for deletion with a purge that fails and with one that succeeds.
\<close>

theorem gc_errors_swallowed_or_returned_witness:
  "IsZero (DeletionTimestamp (ObjectMeta (obj example_pass))) \<and>
   SpecType (Spec (obj example_pass)) = [] \<and>
   snd (example_gc_fails example_artifact) \<noteq> None \<and>
   obj (fst (reconcileStorage (example_env\<lparr>Storage_GarbageCollect := example_gc_fails\<rparr>) example_pass)) =
     obj (fst (reconcileStorage example_env example_pass)) \<and>
   snd (reconcileStorage (example_env\<lparr>Storage_GarbageCollect := example_gc_fails\<rparr>) example_pass) =
     snd (reconcileStorage example_env example_pass) \<and>
   ContainsFinalizer example_deleted SourceFinalizer \<and>
   \<not> IsZero (DeletionTimestamp (ObjectMeta example_deleted)) \<and>
   Reconcile_body example_env_purge_fails example_deleted =
     reconcileDelete example_env_purge_fails example_deleted \<and>
   (\<exists>effs err. reconcileDelete example_env_purge_fails example_deleted =
                 (example_deleted, effs, ResultEmpty, Some err)) \<and>
   (\<exists>ob' effs. reconcileDelete example_env example_deleted = (ob', effs, ResultEmpty, None) \<and>
      StatusArtifact (Status ob') = None \<and> StatusURL (Status ob') = [] \<and>
      Conditions (Status ob') = None \<and>
      SourceFinalizer \<notin> set (Finalizers (ObjectMeta ob')))"
proof -
  have steady: "IsZero (DeletionTimestamp (ObjectMeta (obj example_pass))) \<and>
                SpecType (Spec (obj example_pass)) = []"
    by (simp add: IsZero_def example_pass_def example_stored_def example_tracked_def example_repo_def)
  have gc_fails: "snd (example_gc_fails example_artifact) \<noteq> None"
    by (simp add: example_gc_fails_def)
  have deleting: "ContainsFinalizer example_deleted SourceFinalizer \<and>
                  \<not> IsZero (DeletionTimestamp (ObjectMeta example_deleted))"
    by (simp add: ContainsFinalizer_def SourceFinalizer_def IsZero_def example_deleted_def
                  example_stored_def example_tracked_def example_repo_def)
  have purge_fails:
    "Storage_RemoveAll example_env_purge_fails
       (Storage_NewArtifactFor example_env_purge_fails (Kind example_deleted)
          (ObjectMeta example_deleted) [] ''*'') =
     ([], Some (Plain ''directory not empty''))"
    by (simp add: example_env_purge_fails_def)
  have purge_ok:
    "Storage_RemoveAll example_env
       (Storage_NewArtifactFor example_env (Kind example_deleted) (ObjectMeta example_deleted) [] ''*'') =
     (''/data/helmrepository/flux-system/podinfo'', None)"
    by (simp add: example_env_def)
  from gc_errors_swallowed_or_returned
         [where s = example_pass and r = example_env and gc = example_gc_fails and ob = example_deleted]
       steady
  have swallowed:
    "obj (fst (reconcileStorage (example_env\<lparr>Storage_GarbageCollect := example_gc_fails\<rparr>) example_pass)) =
       obj (fst (reconcileStorage example_env example_pass)) \<and>
     snd (reconcileStorage (example_env\<lparr>Storage_GarbageCollect := example_gc_fails\<rparr>) example_pass) =
       snd (reconcileStorage example_env example_pass)"
    by simp
  from gc_errors_swallowed_or_returned
         [where s = example_pass and r = example_env_purge_fails and gc = example_gc_fails
            and ob = example_deleted]
       deleting purge_fails
  have returned:
    "Reconcile_body example_env_purge_fails example_deleted =
       reconcileDelete example_env_purge_fails example_deleted \<and>
     (\<exists>effs err. reconcileDelete example_env_purge_fails example_deleted =
                   (example_deleted, effs, ResultEmpty, Some err))"
    by blast
  from gc_errors_swallowed_or_returned
         [where s = example_pass and r = example_env and gc = example_gc_fails and ob = example_deleted]
       deleting purge_ok
  have removed:
    "\<exists>ob' effs. reconcileDelete example_env example_deleted = (ob', effs, ResultEmpty, None) \<and>
      StatusArtifact (Status ob') = None \<and> StatusURL (Status ob') = [] \<and>
      Conditions (Status ob') = None \<and>
      SourceFinalizer \<notin> set (Finalizers (ObjectMeta ob'))"
    by auto
  from steady gc_fails swallowed deleting returned removed show ?thesis by blast
qed


subsection \<open>C5: the migration predicate\<close>

text \<open>
  Claim C5. \<open>HelmRepositoryOCIRequireMigration\<close> holds of an object exactly when the
  object is a HelmRepository whose type is the OCI type and which carries the source
  finalizer or has a status that is not empty; the status is empty when the observed
  generation is zero, the condition list is nil, the URL is empty, the Artifact is nil
  and the last handled reconcile request is empty, all five at once. The \<open>Create\<close>,
  \<open>Update\<close> and \<open>Delete\<close> methods of the migration predicate are this test on the
  object of the event, and \<open>Update\<close> reads the new object only: replacing the old
  object of the event changes nothing.
\<close>

theorem MigrationPredicate_fires_iff:
  "(HelmRepositoryOCIRequireMigration ob \<longleftrightarrow>
      (\<exists>hr. ob = Some (HelmRepositoryObject hr) \<and>
            SpecType (Spec hr) = HelmRepositoryTypeOCI \<and>
            (SourceFinalizer \<in> set (Finalizers (ObjectMeta hr)) \<or>
             \<not> (ObservedGeneration (Status hr) = 0 \<and>
                Conditions (Status hr) = None \<and>
                StatusURL (Status hr) = [] \<and>
                StatusArtifact (Status hr) = None \<and>
                LastHandledReconcileAt (Status hr) = [])))) \<and>
   HelmRepositoryOCIMigrationPredicate_Create p ce = HelmRepositoryOCIRequireMigration (Create_Object ce) \<and>
   HelmRepositoryOCIMigrationPredicate_Update p ue = HelmRepositoryOCIRequireMigration (Update_ObjectNew ue) \<and>
   HelmRepositoryOCIMigrationPredicate_Update p (ue\<lparr>Update_ObjectOld := old\<rparr>) =
     HelmRepositoryOCIMigrationPredicate_Update p ue \<and>
   HelmRepositoryOCIMigrationPredicate_Delete p de = HelmRepositoryOCIRequireMigration (Delete_Object de)"
proof -
  have "HelmRepositoryOCIRequireMigration ob \<longleftrightarrow>
      (\<exists>hr. ob = Some (HelmRepositoryObject hr) \<and>
            SpecType (Spec hr) = HelmRepositoryTypeOCI \<and>
            (SourceFinalizer \<in> set (Finalizers (ObjectMeta hr)) \<or>
             \<not> (ObservedGeneration (Status hr) = 0 \<and>
                Conditions (Status hr) = None \<and>
                StatusURL (Status hr) = [] \<and>
                StatusArtifact (Status hr) = None \<and>
                LastHandledReconcileAt (Status hr) = [])))"
  proof (cases ob)
    case None
    then show ?thesis by (simp add: HelmRepositoryOCIRequireMigration_def)
  next
    case (Some c)
    then show ?thesis
      by (cases c)
         (auto simp: HelmRepositoryOCIRequireMigration_def ContainsFinalizer_def
                     hasEmptyHelmRepositoryStatus_def)
  qed
  then show ?thesis
    by (simp add: HelmRepositoryOCIMigrationPredicate_Create_def
                  HelmRepositoryOCIMigrationPredicate_Update_def
                  HelmRepositoryOCIMigrationPredicate_Delete_def)
qed

text \<open>
  The theorem at two OCI objects without finalizer: one whose only non-zero status field
  is the observed generation \<open>-1\<close>, which needs migration, and one with an empty status,
  which does not.
\<close>

theorem MigrationPredicate_fires_iff_witness:
  "SourceFinalizer \<notin> set (Finalizers (ObjectMeta example_oci_observed)) \<and>
   ObservedGeneration (Status example_oci_observed) \<noteq> 0 \<and>
   HelmRepositoryOCIRequireMigration (Some (HelmRepositoryObject example_oci_observed)) \<and>
   \<not> HelmRepositoryOCIRequireMigration (Some (HelmRepositoryObject example_oci))"
  using MigrationPredicate_fires_iff [where ob = "Some (HelmRepositoryObject example_oci_observed)"]
        MigrationPredicate_fires_iff [where ob = "Some (HelmRepositoryObject example_oci)"]
  by (simp add: example_oci_observed_def example_oci_def example_repo_def HelmRepositoryTypeOCI_def
                SourceFinalizer_def)

subsection \<open>C6: a suspended object\<close>




subsection \<open>C7: notifications\<close>

text \<open>
  Claim C7. \<open>notify\<close> goes past its guard when the error is nil, the result is
  \<open>ResultSuccess\<close> and the new object has an Artifact. Past the guard it emits exactly
  one event: "NewArtifact" when the checksum of the old Artifact (empty when there was
  none) differs from the new one, and otherwise the succeeded event when
  \<open>FailureRecovery\<close> finds, for the conditions \<open>FetchFailed\<close> and
  \<open>StorageOperationFailed\<close>, that the object recovered. In every other case (the guard
  fails, or the checksum is unchanged and nothing recovered) it emits nothing.
  \<open>reconcile\<close> calls it after the loop, with the object as it was on entry as the old
  one, and does not call it when the loop returned on a requeue.
\<close>

theorem notify_cases:
  "(let guard = (resErr = None \<and> res = ResultSuccess \<and> StatusArtifact (Status newObj) \<noteq> None);
        oldChecksum = (case StatusArtifact (Status oldObj) of Some a \<Rightarrow> Checksum a | None \<Rightarrow> []);
        newChecksum = (case StatusArtifact (Status newObj) of Some a \<Rightarrow> Checksum a | None \<Rightarrow> []);
        recovered = FailureRecovery r oldObj newObj [FetchFailedCondition, StorageOperationFailedCondition]
    in (guard \<and> oldChecksum \<noteq> newChecksum \<longrightarrow>
          (\<exists>annotations message. notify r oldObj newObj repo res resErr =
             [Call_AnnotatedEventf annotations EventTypeNormal ''NewArtifact'' message])) \<and>
       (guard \<and> oldChecksum = newChecksum \<and> recovered \<longrightarrow>
          (\<exists>annotations message. notify r oldObj newObj repo res resErr =
             [Call_AnnotatedEventf annotations EventTypeNormal SucceededReason message])) \<and>
       (\<not> guard \<or> (oldChecksum = newChecksum \<and> \<not> recovered) \<longrightarrow>
          notify r oldObj newObj repo res resErr = [])) \<and>
   (reconcile_progress r ob = (ob0, effs0, None) \<longrightarrow>
      (case reconcile_loop r recs
              \<lparr>obj = ob0, artifact = Artifact_zero, chartRepo = ChartRepository_zero, effects = effs0\<rparr>
              ResultEmpty of
         Returned s \<Rightarrow> fst (snd (reconcile r ob recs)) = effects s
       | Finished s res' err' \<Rightarrow>
           fst (snd (reconcile r ob recs)) = effects s @ notify r ob (obj s) (chartRepo s) res' err'))"
  by (auto simp: notify_def Let_def helmRepositoryFailConditions_def reconcile_def
           split: option.splits loop_exit.splits)

text \<open>
  The theorem at the example objects: a first artifact is announced, the clearing of
  \<open>FetchFailed\<close> with an unchanged artifact is announced as a recovery, and a pass that
  changes nothing, one that ends with the empty result and one that has no artifact
  announce nothing.
\<close>

theorem notify_cases_witness:
  "(\<exists>annotations message.
      notify example_env example_tracked example_stored ChartRepository_zero ResultSuccess None =
        [Call_AnnotatedEventf annotations EventTypeNormal ''NewArtifact'' message]) \<and>
   FailureRecovery example_env example_recovering example_stored
     [FetchFailedCondition, StorageOperationFailedCondition] \<and>
   (\<exists>annotations message.
      notify example_env example_recovering example_stored ChartRepository_zero ResultSuccess None =
        [Call_AnnotatedEventf annotations EventTypeNormal SucceededReason message]) \<and>
   notify example_env example_stored example_stored ChartRepository_zero ResultSuccess None = [] \<and>
   notify example_env example_tracked example_stored ChartRepository_zero ResultEmpty None = [] \<and>
   notify example_env example_tracked example_tracked ChartRepository_zero ResultSuccess None = []"
proof -
  have stored: "StatusArtifact (Status example_stored) = Some example_artifact"
    by (simp add: example_stored_def)
  have recovering: "StatusArtifact (Status example_recovering) = Some example_artifact"
    by (simp add: example_recovering_def example_stored_def)
  have tracked: "StatusArtifact (Status example_tracked) = None"
    by (simp add: example_tracked_def example_repo_def)
  have checksum: "Checksum example_artifact \<noteq> []"
    by (simp add: example_artifact_def)
  have recovered: "FailureRecovery example_env example_recovering example_stored
                     [FetchFailedCondition, StorageOperationFailedCondition]"
    by (simp add: example_env_def conditions_Get_def GetConditions_def FetchFailedCondition_def
                  StorageOperationFailedCondition_def example_recovering_def example_stored_def)
  have nothing_recovered: "\<not> FailureRecovery example_env example_stored example_stored
                     [FetchFailedCondition, StorageOperationFailedCondition]"
    by (simp add: example_env_def conditions_Get_def GetConditions_def FetchFailedCondition_def
                  StorageOperationFailedCondition_def example_stored_def)
  from notify_cases [where r = example_env and oldObj = example_tracked and newObj = example_stored
                       and repo = ChartRepository_zero and res = ResultSuccess and resErr = None]
       stored tracked checksum
  have first: "\<exists>annotations message.
      notify example_env example_tracked example_stored ChartRepository_zero ResultSuccess None =
        [Call_AnnotatedEventf annotations EventTypeNormal ''NewArtifact'' message]"
    by (simp add: Let_def)
  from notify_cases [where r = example_env and oldObj = example_recovering and newObj = example_stored
                       and repo = ChartRepository_zero and res = ResultSuccess and resErr = None]
       stored recovering recovered
  have second: "\<exists>annotations message.
      notify example_env example_recovering example_stored ChartRepository_zero ResultSuccess None =
        [Call_AnnotatedEventf annotations EventTypeNormal SucceededReason message]"
    by (simp add: Let_def)
  from notify_cases [where r = example_env and oldObj = example_stored and newObj = example_stored
                       and repo = ChartRepository_zero and res = ResultSuccess and resErr = None]
       stored nothing_recovered
  have third: "notify example_env example_stored example_stored ChartRepository_zero ResultSuccess None = []"
    by (simp add: Let_def)
  from notify_cases [where r = example_env and oldObj = example_tracked and newObj = example_stored
                       and repo = ChartRepository_zero and res = ResultEmpty and resErr = None]
  have fourth: "notify example_env example_tracked example_stored ChartRepository_zero ResultEmpty None = []"
    by (simp add: Let_def)
  from notify_cases [where r = example_env and oldObj = example_tracked and newObj = example_tracked
                       and repo = ChartRepository_zero and res = ResultSuccess and resErr = None]
       tracked
  have fifth: "notify example_env example_tracked example_tracked ChartRepository_zero ResultSuccess None = []"
    by (simp add: Let_def)
  from first recovered second third fourth fifth show ?thesis by blast
qed

subsection \<open>C8: a failed symlink\<close>

text \<open>
  Claim C8. When the candidate is not already current and directory, lock and copy
  succeed, the artifact stage returns success with no error whatever \<open>Storage.Symlink\<close>
  answers, and the status Artifact is the copied one. The published URL after the stage
  is the URL the symlink call returned when that is not empty, and the URL the object
  had before otherwise: it changes only on a non-empty returned URL. In particular a
  symlink call that fails, returning an error and (as a failed call does) the empty
  URL, leaves the published URL exactly as it was; the failure is recorded as a trace
  event and nothing else.
\<close>

theorem symlink_failure_keeps_url:
  assumes stale: "\<not> (HasRevision r (StatusArtifact (Status (obj s))) (Revision (artifact s)) \<and>
                      HasChecksum (StatusArtifact (Status (obj s))) (Checksum (artifact s)))"
      and mkdir: "Storage_MkdirAll r (artifact s) = None"
      and lock: "Storage_Lock r (artifact s) = None"
      and copy: "Storage_CopyFromPath r (artifact s) (RepoPath (chartRepo s)) = (a1, None)"
      and link: "Storage_Symlink r a1 ''index.yaml'' = (indexURL, serr)"
      and run: "reconcileArtifact r s = (s', res, err)"
  shows "res = ResultSuccess \<and> err = None \<and>
         StatusArtifact (Status (obj s')) = Some a1 \<and>
         StatusURL (Status (obj s')) = (if indexURL \<noteq> [] then indexURL else StatusURL (Status (obj s))) \<and>
         (serr \<noteq> None \<and> indexURL = [] \<longrightarrow> StatusURL (Status (obj s')) = StatusURL (Status (obj s))) \<and>
         (\<forall>e. serr = Some e \<longrightarrow>
            Call_Eventf EventTypeTrace SymlinkUpdateFailedReason
              (''failed to update status URL symlink: '' @ Error e) \<in> set (effects s'))"
  using assms
  by (auto simp: reconcileArtifact_def reconcileArtifact_body_def Let_def
           split: if_splits option.splits prod.splits)

text \<open>
  The theorem for a new candidate in a store whose symlink call fails: the stage
  succeeds, the new artifact is recorded, the published URL is the old one.
\<close>

theorem symlink_failure_keeps_url_witness:
  "Storage_Symlink example_env_symlink_fails
     (fst (Storage_CopyFromPath example_env_symlink_fails (artifact example_stale_pass)
             (RepoPath (chartRepo example_stale_pass)))) ''index.yaml'' =
     ([], Some (Plain ''read-only file system'')) \<and>
   fst (snd (reconcileArtifact example_env_symlink_fails example_stale_pass)) = ResultSuccess \<and>
   snd (snd (reconcileArtifact example_env_symlink_fails example_stale_pass)) = None \<and>
   StatusURL (Status (obj (fst (reconcileArtifact example_env_symlink_fails example_stale_pass)))) =
     StatusURL (Status (obj example_stale_pass)) \<and>
   StatusArtifact (Status (obj (fst (reconcileArtifact example_env_symlink_fails example_stale_pass)))) \<noteq>
     StatusArtifact (Status (obj example_stale_pass))"
proof -
  let ?r = example_env_symlink_fails
  let ?s = example_stale_pass
  let ?a1 = "fst (Storage_CopyFromPath ?r (artifact ?s) (RepoPath (chartRepo ?s)))"
  have stale: "\<not> (HasRevision ?r (StatusArtifact (Status (obj ?s))) (Revision (artifact ?s)) \<and>
                   HasChecksum (StatusArtifact (Status (obj ?s))) (Checksum (artifact ?s)))"
    by (simp add: HasRevision_def example_env_symlink_fails_def example_env_def example_stale_pass_def
                  example_stored_def example_artifact_def example_candidate_def)
  have mkdir: "Storage_MkdirAll ?r (artifact ?s) = None"
    by (simp add: example_env_symlink_fails_def example_env_def)
  have lock: "Storage_Lock ?r (artifact ?s) = None"
    by (simp add: example_env_symlink_fails_def example_env_def)
  have copy: "Storage_CopyFromPath ?r (artifact ?s) (RepoPath (chartRepo ?s)) = (?a1, None)"
    by (simp add: example_env_symlink_fails_def example_env_def)
  have link: "Storage_Symlink ?r ?a1 ''index.yaml'' = ([], Some (Plain ''read-only file system''))"
    by (simp add: example_env_symlink_fails_def)
  have run: "reconcileArtifact ?r ?s =
      (fst (reconcileArtifact ?r ?s), fst (snd (reconcileArtifact ?r ?s)),
       snd (snd (reconcileArtifact ?r ?s)))"
    by simp
  have changed: "Some ?a1 \<noteq> StatusArtifact (Status (obj ?s))"
    by (simp add: example_env_symlink_fails_def example_env_def example_stale_pass_def
                  example_stored_def example_artifact_def example_candidate_def)
  from symlink_failure_keeps_url [OF stale mkdir lock copy link run] link changed
  show ?thesis by simp
qed


subsection \<open>C9: the unset type is the default type\<close>

text \<open>
  Claim C9. The event filter of the controller passes an event of any of the four kinds
  exactly when its object (the new one for an update) is a HelmRepository whose type is
  the default type or empty, and the generation-changed or the reconcile-requested
  predicate passes it. For an object with the finalizer and no deletion timestamp,
  \<open>Reconcile\<close> takes the deletion path exactly when the type is neither empty nor the
  default; with the type unset or default it returns at once if the object is suspended
  and runs the three sub-reconcilers otherwise. For an object with no deletion
  timestamp, \<open>garbageCollect\<close> starts the full purge exactly when the type is neither
  empty nor the default; otherwise it makes no call to \<open>RemoveAll\<close> and returns the
  object unchanged.
\<close>

theorem empty_type_is_default:
  "(Create (SetupWithManagerAndOptions_EventFilter gc rr) ce \<longleftrightarrow>
      (\<exists>hr. Create_Object ce = Some (HelmRepositoryObject hr) \<and>
            (SpecType (Spec hr) = HelmRepositoryTypeDefault \<or> SpecType (Spec hr) = [])) \<and>
      (Create gc ce \<or> Create rr ce)) \<and>
   (Update (SetupWithManagerAndOptions_EventFilter gc rr) ue \<longleftrightarrow>
      (\<exists>hr. Update_ObjectNew ue = Some (HelmRepositoryObject hr) \<and>
            (SpecType (Spec hr) = HelmRepositoryTypeDefault \<or> SpecType (Spec hr) = [])) \<and>
      (Update gc ue \<or> Update rr ue)) \<and>
   (Delete (SetupWithManagerAndOptions_EventFilter gc rr) de \<longleftrightarrow>
      (\<exists>hr. Delete_Object de = Some (HelmRepositoryObject hr) \<and>
            (SpecType (Spec hr) = HelmRepositoryTypeDefault \<or> SpecType (Spec hr) = [])) \<and>
      (Delete gc de \<or> Delete rr de)) \<and>
   (Generic (SetupWithManagerAndOptions_EventFilter gc rr) ge \<longleftrightarrow>
      (\<exists>hr. Generic_Object ge = Some (HelmRepositoryObject hr) \<and>
            (SpecType (Spec hr) = HelmRepositoryTypeDefault \<or> SpecType (Spec hr) = [])) \<and>
      (Generic gc ge \<or> Generic rr ge)) \<and>
   (ContainsFinalizer ob SourceFinalizer \<and> IsZero (DeletionTimestamp (ObjectMeta ob)) \<longrightarrow>
      (if SpecType (Spec ob) \<noteq> [] \<and> SpecType (Spec ob) \<noteq> HelmRepositoryTypeDefault
       then Reconcile_body r ob = reconcileDelete r ob
       else if Suspend (Spec ob) then Reconcile_body r ob = (ob, [], ResultEmpty, None)
       else Reconcile_body r ob =
              reconcile r ob [reconcileStorage r, reconcileSource r, reconcileArtifact r])) \<and>
   (IsZero (DeletionTimestamp (ObjectMeta ob)) \<longrightarrow>
      (if SpecType (Spec ob) \<noteq> [] \<and> SpecType (Spec ob) \<noteq> HelmRepositoryTypeDefault
       then \<exists>effs. fst (snd (garbageCollect r ob)) =
                     Call_RemoveAll (Storage_NewArtifactFor r (Kind ob) (ObjectMeta ob) [] ''*'') # effs
       else fst (garbageCollect r ob) = ob \<and>
            (\<forall>a. Call_RemoveAll a \<notin> set (fst (snd (garbageCollect r ob))))))"
proof -
  have filter_create: "Create (SetupWithManagerAndOptions_EventFilter gc rr) ce \<longleftrightarrow>
      (\<exists>hr. Create_Object ce = Some (HelmRepositoryObject hr) \<and>
            (SpecType (Spec hr) = HelmRepositoryTypeDefault \<or> SpecType (Spec hr) = [])) \<and>
      (Create gc ce \<or> Create rr ce)"
    by (auto simp: SetupWithManagerAndOptions_EventFilter_def predicate_And_def predicate_Or_def
                   TypePredicate_def HelmRepositoryTypePredicate_Create_def
                   helmRepositoryTypeFilter_def
             split: option.splits client_Object.splits)
  have filter_update: "Update (SetupWithManagerAndOptions_EventFilter gc rr) ue \<longleftrightarrow>
      (\<exists>hr. Update_ObjectNew ue = Some (HelmRepositoryObject hr) \<and>
            (SpecType (Spec hr) = HelmRepositoryTypeDefault \<or> SpecType (Spec hr) = [])) \<and>
      (Update gc ue \<or> Update rr ue)"
    by (auto simp: SetupWithManagerAndOptions_EventFilter_def predicate_And_def predicate_Or_def
                   TypePredicate_def HelmRepositoryTypePredicate_Update_def
             split: option.splits client_Object.splits)
  have filter_delete: "Delete (SetupWithManagerAndOptions_EventFilter gc rr) de \<longleftrightarrow>
      (\<exists>hr. Delete_Object de = Some (HelmRepositoryObject hr) \<and>
            (SpecType (Spec hr) = HelmRepositoryTypeDefault \<or> SpecType (Spec hr) = [])) \<and>
      (Delete gc de \<or> Delete rr de)"
    by (auto simp: SetupWithManagerAndOptions_EventFilter_def predicate_And_def predicate_Or_def
                   TypePredicate_def HelmRepositoryTypePredicate_Delete_def
                   helmRepositoryTypeFilter_def
             split: option.splits client_Object.splits)
  have filter_generic: "Generic (SetupWithManagerAndOptions_EventFilter gc rr) ge \<longleftrightarrow>
      (\<exists>hr. Generic_Object ge = Some (HelmRepositoryObject hr) \<and>
            (SpecType (Spec hr) = HelmRepositoryTypeDefault \<or> SpecType (Spec hr) = [])) \<and>
      (Generic gc ge \<or> Generic rr ge)"
    by (auto simp: SetupWithManagerAndOptions_EventFilter_def predicate_And_def predicate_Or_def
                   TypePredicate_def HelmRepositoryTypePredicate_Generic_def
                   helmRepositoryTypeFilter_def
             split: option.splits client_Object.splits)
  have orchestrator:
    "ContainsFinalizer ob SourceFinalizer \<and> IsZero (DeletionTimestamp (ObjectMeta ob)) \<longrightarrow>
      (if SpecType (Spec ob) \<noteq> [] \<and> SpecType (Spec ob) \<noteq> HelmRepositoryTypeDefault
       then Reconcile_body r ob = reconcileDelete r ob
       else if Suspend (Spec ob) then Reconcile_body r ob = (ob, [], ResultEmpty, None)
       else Reconcile_body r ob =
              reconcile r ob [reconcileStorage r, reconcileSource r, reconcileArtifact r])"
    by (auto simp: Reconcile_body_def)
  have collect: "IsZero (DeletionTimestamp (ObjectMeta ob)) \<longrightarrow>
      (if SpecType (Spec ob) \<noteq> [] \<and> SpecType (Spec ob) \<noteq> HelmRepositoryTypeDefault
       then \<exists>effs. fst (snd (garbageCollect r ob)) =
                     Call_RemoveAll (Storage_NewArtifactFor r (Kind ob) (ObjectMeta ob) [] ''*'') # effs
       else fst (garbageCollect r ob) = ob \<and>
            (\<forall>a. Call_RemoveAll a \<notin> set (fst (snd (garbageCollect r ob)))))"
    by (auto simp: garbageCollect_def Let_def split: option.splits prod.splits)
  show ?thesis
    using filter_create filter_update filter_delete filter_generic orchestrator collect by blast
qed

text \<open>
  The theorem at the example object with the type unset: its creation passes the filter
  while that of the OCI object does not, it is reconciled by the three sub-reconcilers,
  and the garbage collection does not purge it.
\<close>

theorem empty_type_is_default_witness:
  "SpecType (Spec example_tracked) = [] \<and>
   ContainsFinalizer example_tracked SourceFinalizer \<and>
   IsZero (DeletionTimestamp (ObjectMeta example_tracked)) \<and>
   Create (SetupWithManagerAndOptions_EventFilter example_always example_never)
     \<lparr>Create_Object = Some (HelmRepositoryObject example_tracked)\<rparr> \<and>
   \<not> Create (SetupWithManagerAndOptions_EventFilter example_always example_never)
       \<lparr>Create_Object = Some (HelmRepositoryObject example_oci)\<rparr> \<and>
   Reconcile_body example_env example_tracked =
     reconcile example_env example_tracked
       [reconcileStorage example_env, reconcileSource example_env, reconcileArtifact example_env] \<and>
   fst (garbageCollect example_env example_tracked) = example_tracked \<and>
   (\<forall>a. Call_RemoveAll a \<notin> set (fst (snd (garbageCollect example_env example_tracked))))"
proof -
  have unset: "SpecType (Spec example_tracked) = [] \<and> \<not> Suspend (Spec example_tracked)"
    by (simp add: example_tracked_def example_repo_def)
  have oci: "SpecType (Spec example_oci) \<noteq> HelmRepositoryTypeDefault \<and> SpecType (Spec example_oci) \<noteq> []"
    by (simp add: example_oci_def example_repo_def HelmRepositoryTypeDefault_def)
  have tracked: "ContainsFinalizer example_tracked SourceFinalizer \<and>
                 IsZero (DeletionTimestamp (ObjectMeta example_tracked))"
    by (simp add: ContainsFinalizer_def SourceFinalizer_def IsZero_def example_tracked_def
                  example_repo_def)
  have gate: "Create example_always \<lparr>Create_Object = Some (HelmRepositoryObject example_tracked)\<rparr>"
    by (simp add: example_always_def)
  from empty_type_is_default
         [where gc = example_always and rr = example_never
            and ce = "\<lparr>Create_Object = Some (HelmRepositoryObject example_tracked)\<rparr>"
            and ob = example_tracked and r = example_env]
       unset tracked gate
  have first: "Create (SetupWithManagerAndOptions_EventFilter example_always example_never)
                 \<lparr>Create_Object = Some (HelmRepositoryObject example_tracked)\<rparr> \<and>
     Reconcile_body example_env example_tracked =
       reconcile example_env example_tracked
         [reconcileStorage example_env, reconcileSource example_env, reconcileArtifact example_env] \<and>
     fst (garbageCollect example_env example_tracked) = example_tracked \<and>
     (\<forall>a. Call_RemoveAll a \<notin> set (fst (snd (garbageCollect example_env example_tracked))))"
    by simp
  from empty_type_is_default
         [where gc = example_always and rr = example_never
            and ce = "\<lparr>Create_Object = Some (HelmRepositoryObject example_oci)\<rparr>"]
       oci
  have second: "\<not> Create (SetupWithManagerAndOptions_EventFilter example_always example_never)
                    \<lparr>Create_Object = Some (HelmRepositoryObject example_oci)\<rparr>"
    by simp
  from unset tracked first second show ?thesis by simp
qed

subsection \<open>C10: generic events and the migration predicate\<close>

text \<open>
  Claim C10. The migration predicate has no \<open>Generic\<close> method of its own: a generic
  event goes to the embedded \<open>predicate.Funcs\<close>, and with no \<open>GenericFunc\<close> set there, as
  in the zero value the predicate is built with, every generic event passes, whatever
  its object. \<open>Create\<close>, \<open>Update\<close> and \<open>Delete\<close> pass only objects that require
  migration.
\<close>

theorem MigrationPredicate_Generic_passes:
  "HelmRepositoryOCIMigrationPredicate_Generic h e = Funcs_Generic (MigrationPredicate_Funcs h) e \<and>
   (GenericFunc (MigrationPredicate_Funcs h) = None \<longrightarrow> HelmRepositoryOCIMigrationPredicate_Generic h e) \<and>
   HelmRepositoryOCIMigrationPredicate_Generic \<lparr>MigrationPredicate_Funcs = Funcs_zero\<rparr> e \<and>
   (HelmRepositoryOCIMigrationPredicate_Create h ce \<longrightarrow> HelmRepositoryOCIRequireMigration (Create_Object ce)) \<and>
   (HelmRepositoryOCIMigrationPredicate_Update h ue \<longrightarrow> HelmRepositoryOCIRequireMigration (Update_ObjectNew ue)) \<and>
   (HelmRepositoryOCIMigrationPredicate_Delete h de \<longrightarrow> HelmRepositoryOCIRequireMigration (Delete_Object de))"
  by (simp add: HelmRepositoryOCIMigrationPredicate_Generic_def Funcs_Generic_def Funcs_zero_def
                HelmRepositoryOCIMigrationPredicate_Create_def
                HelmRepositoryOCIMigrationPredicate_Update_def
                HelmRepositoryOCIMigrationPredicate_Delete_def)

text \<open>
  The theorem at the example object of the default kind, which needs no migration: a
  generic event for it passes the predicate, a create event does not.
\<close>

theorem MigrationPredicate_Generic_passes_witness:
  "GenericFunc (MigrationPredicate_Funcs \<lparr>MigrationPredicate_Funcs = Funcs_zero\<rparr>) = None \<and>
   HelmRepositoryOCIMigrationPredicate_Generic \<lparr>MigrationPredicate_Funcs = Funcs_zero\<rparr>
     \<lparr>Generic_Object = Some (HelmRepositoryObject example_repo)\<rparr> \<and>
   \<not> HelmRepositoryOCIMigrationPredicate_Create \<lparr>MigrationPredicate_Funcs = Funcs_zero\<rparr>
     \<lparr>Create_Object = Some (HelmRepositoryObject example_repo)\<rparr>"
proof -
  have unset: "GenericFunc (MigrationPredicate_Funcs \<lparr>MigrationPredicate_Funcs = Funcs_zero\<rparr>) = None"
    by (simp add: Funcs_zero_def)
  have no_migration: "\<not> HelmRepositoryOCIRequireMigration (Some (HelmRepositoryObject example_repo))"
    by (simp add: HelmRepositoryOCIRequireMigration_def example_repo_def HelmRepositoryTypeOCI_def)
  show ?thesis
    using unset no_migration
          MigrationPredicate_Generic_passes
            [of "\<lparr>MigrationPredicate_Funcs = Funcs_zero\<rparr>"
                "\<lparr>Generic_Object = Some (HelmRepositoryObject example_repo)\<rparr>"
                "\<lparr>Create_Object = Some (HelmRepositoryObject example_repo)\<rparr>"
                "\<lparr>Update_ObjectOld = None, Update_ObjectNew = None\<rparr>"
                "\<lparr>Delete_Object = None\<rparr>"]
    by auto
qed

end
